theory Spec2Isabelle
  imports Main "HOL-Library.Word"
begin

section \<open>Python values as returned by \<open>resp.json()\<close>\<close>

text \<open>
  The three stage functions of \<open>app.py\<close> work on whatever \<open>resp.json()\<close> returns: a
  Python object built from \<open>None\<close>, booleans, integers, strings, lists and dictionaries
  with string keys. A dictionary is written as the list of its entries; a lookup takes the
  first entry of a key (a parsed dictionary holds every key once). Floating-point numbers
  are outside the model.
\<close>

datatype pyval =
    PyNone
  | PyBool bool
  | PyInt int
  | PyStr string
  | PyList "pyval list"
  | PyDict "(string \<times> pyval) list"

text \<open>The exceptions that the script can raise; none of them is caught in \<open>app.py\<close>.\<close>

datatype exn =
    AttributeError
  | TypeError
  | KeyError
  | IndexError
  | JSONDecodeError
  | FileNotFoundError
  | OSError
  | RequestException
  | StreamlitSecretNotFoundError

fun bindE :: "exn + 'a \<Rightarrow> ('a \<Rightarrow> exn + 'b) \<Rightarrow> exn + 'b" where
  "bindE (Inl e) f = Inl e"
| "bindE (Inr x) f = f x"

text \<open>Python truth value testing, as used by \<open>not x\<close>, \<open>x or y\<close> and \<open>bool(x)\<close>.\<close>

fun truthy :: "pyval \<Rightarrow> bool" where
  "truthy PyNone = False"
| "truthy (PyBool b) = b"
| "truthy (PyInt i) = (i \<noteq> 0)"
| "truthy (PyStr s) = (s \<noteq> [])"
| "truthy (PyList xs) = (xs \<noteq> [])"
| "truthy (PyDict kv) = (kv \<noteq> [])"

text \<open>\<open>a or b\<close> on operands that are already evaluated.\<close>

definition py_or :: "pyval \<Rightarrow> pyval \<Rightarrow> pyval" where
  "py_or a b = (if truthy a then a else b)"

text \<open>\<open>x.get(k, d)\<close>: only a dictionary has the method.\<close>

fun dict_get :: "pyval \<Rightarrow> string \<Rightarrow> pyval \<Rightarrow> exn + pyval" where
  "dict_get (PyDict kv) k d = Inr (case map_of kv k of None \<Rightarrow> d | Some v \<Rightarrow> v)"
| "dict_get PyNone k d = Inl AttributeError"
| "dict_get (PyBool b) k d = Inl AttributeError"
| "dict_get (PyInt i) k d = Inl AttributeError"
| "dict_get (PyStr s) k d = Inl AttributeError"
| "dict_get (PyList xs) k d = Inl AttributeError"

text \<open>\<open>k in s\<close> on strings: \<open>k\<close> occurs in \<open>s\<close> as a contiguous piece.\<close>

fun substring :: "string \<Rightarrow> string \<Rightarrow> bool" where
  "substring k [] = (k = [])"
| "substring k (c # cs) = (take (length k) (c # cs) = k \<or> substring k cs)"

text \<open>\<open>k in x\<close> for a string \<open>k\<close>.\<close>

fun py_in :: "string \<Rightarrow> pyval \<Rightarrow> exn + bool" where
  "py_in k (PyDict kv) = Inr (map_of kv k \<noteq> None)"
| "py_in k (PyList xs) = Inr (PyStr k \<in> set xs)"
| "py_in k (PyStr s) = Inr (substring k s)"
| "py_in k PyNone = Inl TypeError"
| "py_in k (PyBool b) = Inl TypeError"
| "py_in k (PyInt i) = Inl TypeError"

text \<open>\<open>x[k]\<close> for a string \<open>k\<close>.\<close>

fun subscript_key :: "pyval \<Rightarrow> string \<Rightarrow> exn + pyval" where
  "subscript_key (PyDict kv) k = (case map_of kv k of None \<Rightarrow> Inl KeyError | Some v \<Rightarrow> Inr v)"
| "subscript_key PyNone k = Inl TypeError"
| "subscript_key (PyBool b) k = Inl TypeError"
| "subscript_key (PyInt i) k = Inl TypeError"
| "subscript_key (PyStr s) k = Inl TypeError"
| "subscript_key (PyList xs) k = Inl TypeError"

text \<open>\<open>x[0]\<close>. The keys of a parsed dictionary are strings, so \<open>0\<close> is never one of them.\<close>

fun subscript_0 :: "pyval \<Rightarrow> exn + pyval" where
  "subscript_0 (PyList []) = Inl IndexError"
| "subscript_0 (PyList (v # vs)) = Inr v"
| "subscript_0 (PyStr []) = Inl IndexError"
| "subscript_0 (PyStr (c # cs)) = Inr (PyStr [c])"
| "subscript_0 (PyDict kv) = Inl KeyError"
| "subscript_0 PyNone = Inl TypeError"
| "subscript_0 (PyBool b) = Inl TypeError"
| "subscript_0 (PyInt i) = Inl TypeError"

text \<open>\<open>len(x)\<close>.\<close>

fun py_len :: "pyval \<Rightarrow> exn + nat" where
  "py_len (PyList xs) = Inr (length xs)"
| "py_len (PyStr s) = Inr (length s)"
| "py_len (PyDict kv) = Inr (length (remdups (map fst kv)))"
| "py_len PyNone = Inl TypeError"
| "py_len (PyBool b) = Inl TypeError"
| "py_len (PyInt i) = Inl TypeError"

section \<open>Extraction of the transcript and of the reply\<close>

text \<open>
  \<open>call_stt_api\<close>, line 124:
  \<^verbatim>\<open>return data.get("text") or data.get("transcript") or data.get("result") or ""\<close>
\<close>

definition stt_transcript :: "pyval \<Rightarrow> exn + pyval" where
  "stt_transcript data =
     bindE (dict_get data ''text'' PyNone) (\<lambda>t.
       if truthy t then Inr t
       else bindE (dict_get data ''transcript'' PyNone) (\<lambda>tr.
         if truthy tr then Inr tr
         else bindE (dict_get data ''result'' PyNone) (\<lambda>r.
           Inr (py_or r (PyStr '''')))))"

text \<open>
  \<open>call_llm_api\<close>, lines 145 to 147:
  \<^verbatim>\<open>
  if "choices" in data and len(data["choices"])>0:
      return data["choices"][0].get("text") or data["choices"][0].get("message", {}).get("content","")
  return data.get("response") or data.get("text") or ""
  \<close>
\<close>

definition llm_structured :: "pyval \<Rightarrow> exn + bool" where
  "llm_structured data =
     bindE (py_in ''choices'' data) (\<lambda>has.
       if has then bindE (subscript_key data ''choices'') (\<lambda>cs.
                     bindE (py_len cs) (\<lambda>n. Inr (0 < n)))
       else Inr False)"

definition llm_from_choices :: "pyval \<Rightarrow> exn + pyval" where
  "llm_from_choices data =
     bindE (subscript_key data ''choices'') (\<lambda>cs.
     bindE (subscript_0 cs) (\<lambda>c0.
     bindE (dict_get c0 ''text'' PyNone) (\<lambda>t.
       if truthy t then Inr t
       else bindE (subscript_key data ''choices'') (\<lambda>cs'.
            bindE (subscript_0 cs') (\<lambda>c0'.
            bindE (dict_get c0' ''message'' (PyDict [])) (\<lambda>m.
              dict_get m ''content'' (PyStr '''')))))))"

definition llm_from_flat :: "pyval \<Rightarrow> exn + pyval" where
  "llm_from_flat data =
     bindE (dict_get data ''response'' PyNone) (\<lambda>r.
       if truthy r then Inr r
       else bindE (dict_get data ''text'' PyNone) (\<lambda>t.
         Inr (py_or t (PyStr ''''))))"

definition llm_reply :: "pyval \<Rightarrow> exn + pyval" where
  "llm_reply data =
     bindE (llm_structured data) (\<lambda>structured.
       if structured then llm_from_choices data else llm_from_flat data)"

section \<open>The world of one script run\<close>

type_synonym bytes = "8 word list"

text \<open>
  What the script shows on the page, in order. Only the calls that report something are
  kept (\<open>st.info\<close>, \<open>st.error\<close>, \<open>st.warning\<close>, \<open>st.markdown\<close>, \<open>st.success\<close>,
  \<open>st.audio\<close>, \<open>st.balloons\<close>, \<open>st.write\<close>); the page layout and the widgets are the
  inputs of the run. \<open>st.audio(path)\<close> reads the file at \<open>path\<close>: the event carries the
  bytes that were read, which is what the player receives.
\<close>

datatype ui_event =
    Info pyval
  | Error pyval
  | Warning pyval
  | Markdown pyval
  | Success pyval
  | Audio bytes
  | Balloons
  | Write "(string \<times> bool) list"

datatype payload =
    Files "(string \<times> bytes) list"
  | Json pyval

record request =
  url :: string
  headers :: "(string \<times> string) list"
  body :: payload
  timeout :: nat

text \<open>
  A response as \<open>requests\<close> presents it: \<open>resp_json\<close> is the value of \<open>resp.json()\<close>,
  \<open>None\<close> when the body is not JSON and the call raises.
\<close>

record response =
  status_code :: int
  resp_text :: string
  resp_content :: bytes
  resp_json :: "pyval option"

text \<open>\<open>requests.post\<close> either returns a response or raises (connection error, timeout).\<close>

datatype http_result =
    Response response
  | Failed

text \<open>
  The surroundings of a run. \<open>secrets\<close> is the secrets store: \<open>None\<close> when no secrets
  file exists, in which case every access of \<open>st.secrets\<close> raises. \<open>post\<close> stands for the
  remote endpoints, whose answer may depend on the calls made before. \<open>tmpdir\<close> and
  \<open>tmp_token\<close> give the names that \<open>tempfile\<close> picks. \<open>can_write\<close> tells for a path
  whether the file there can be created or opened for writing; it does not change
  during a run.
\<close>

record env =
  secrets :: "(string \<rightharpoonup> string) option"
  post :: "(request \<times> http_result) list \<Rightarrow> request \<Rightarrow> http_result"
  tmpdir :: string
  tmp_token :: "nat \<Rightarrow> string"
  can_write :: "string \<Rightarrow> bool"

text \<open>
  The state that a run changes: the page, the HTTP calls made so far with their results,
  and the file system. \<open>entered\<close> is a ghost field: every stage function appends itself
  on entry, so that "the stage was invoked" can be stated.
\<close>

datatype stage = Transcribe | Generate | Synthesize

record world =
  events :: "ui_event list"
  calls :: "(request \<times> http_result) list"
  files :: "string \<rightharpoonup> bytes"
  entered :: "stage list"

definition emit :: "ui_event \<Rightarrow> world \<Rightarrow> world" where
  "emit e w = w\<lparr>events := events w @ [e]\<rparr>"

definition record_call :: "request \<Rightarrow> http_result \<Rightarrow> world \<Rightarrow> world" where
  "record_call req res w = w\<lparr>calls := calls w @ [(req, res)]\<rparr>"

definition enter :: "stage \<Rightarrow> world \<Rightarrow> world" where
  "enter s w = w\<lparr>entered := entered w @ [s]\<rparr>"

definition write_file :: "string \<Rightarrow> bytes \<Rightarrow> world \<Rightarrow> world" where
  "write_file path bs w = w\<lparr>files := (files w)(path \<mapsto> bs)\<rparr>"

text \<open>
  \<open>with open(path, "wb") as f: f.write(bs)\<close>: raises when the file cannot be opened for
  writing.
\<close>

definition open_write :: "env \<Rightarrow> string \<Rightarrow> bytes \<Rightarrow> world \<Rightarrow> exn + world" where
  "open_write env path bs w =
     (if can_write env path then Inr (write_file path bs w) else Inl OSError)"

text \<open>\<open>str(n)\<close> for an integer, used by the f-strings of the error messages.\<close>

fun digits :: "nat \<Rightarrow> string" where
  "digits n = (if n < 10 then [char_of (48 + n)]
               else digits (n div 10) @ [char_of (48 + n mod 10)])"

declare digits.simps [simp del]

definition str_int :: "int \<Rightarrow> string" where
  "str_int i = (if i < 0 then CHR ''-'' # digits (nat (- i)) else digits (nat i))"

section \<open>Configuration lookups\<close>

text \<open>
  \<open>st.secrets.get(name, default)\<close>: the entry of the store, the default when the store
  has no such entry, and an exception when there is no store at all (only a missing key
  is caught by \<open>get\<close>).
\<close>

definition secrets_get :: "env \<Rightarrow> string \<Rightarrow> exn + string option" where
  "secrets_get env name =
     (case secrets env of
        None \<Rightarrow> Inl StreamlitSecretNotFoundError
      | Some store \<Rightarrow> Inr (store name))"

text \<open>
  Each stage reads its endpoint and its key with \<open>st.secrets.get(name, None)\<close>. The names
  are literals of the source. All three stages pass the same literal for the endpoint
  (lines 111, 132, 155) and the same literal for the key (lines 112, 133, 156). The
  literal for the key looks like a live credential, so it is written here as a placeholder;
  nothing below depends on its characters, only on its being one fixed name.
\<close>

definition stt_endpoint_entry :: string where
  "stt_endpoint_entry = ''https://eastasia.api.cognitive.microsoft.com/''"

definition llm_endpoint_entry :: string where
  "llm_endpoint_entry = ''https://eastasia.api.cognitive.microsoft.com/''"

definition tts_endpoint_entry :: string where
  "tts_endpoint_entry = ''https://eastasia.api.cognitive.microsoft.com/''"

definition stt_key_entry :: string where
  "stt_key_entry = ''<key literal of app.py line 112>''"

definition llm_key_entry :: string where
  "llm_key_entry = ''<key literal of app.py line 112>''"

definition tts_key_entry :: string where
  "tts_key_entry = ''<key literal of app.py line 112>''"

text \<open>
  A Python value that is \<open>None\<close> or a string (a looked-up secret, the path returned by
  \<open>call_tts_api\<close>). Its truth value: \<open>None\<close> and the empty string are false.
\<close>

definition opt_truthy :: "string option \<Rightarrow> bool" where
  "opt_truthy v = (case v of None \<Rightarrow> False | Some s \<Rightarrow> s \<noteq> [])"

text \<open>Such a value where a string is needed (in an f-string, as URL or as path).\<close>

definition opt_str :: "string option \<Rightarrow> string" where
  "opt_str v = (case v of None \<Rightarrow> ''None'' | Some s \<Rightarrow> s)"

text \<open>The check \<open>if not X_ENDPOINT or not X_KEY\<close> at the head of every stage.\<close>

definition config_missing :: "string option \<Rightarrow> string option \<Rightarrow> bool" where
  "config_missing endpoint key = (\<not> opt_truthy endpoint \<or> \<not> opt_truthy key)"

section \<open>The three stages\<close>

definition stt_request :: "string option \<Rightarrow> string option \<Rightarrow> bytes \<Rightarrow> request" where
  "stt_request endpoint key audio =
     \<lparr>url = opt_str endpoint,
      headers = [(''Authorization'', ''Bearer '' @ opt_str key)],
      body = Files [(''file'', audio)],
      timeout = 120\<rparr>"

text \<open>Lines 116 to 124 of \<open>call_stt_api\<close>, after the configuration check.\<close>

definition stt_send ::
  "env \<Rightarrow> string option \<Rightarrow> string option \<Rightarrow> string \<Rightarrow> world \<Rightarrow> (exn + pyval) \<times> world" where
  "stt_send env STT_ENDPOINT STT_KEY local_file_path w1 =
     (case files w1 local_file_path of
        None \<Rightarrow> (Inl FileNotFoundError, w1)
      | Some audio \<Rightarrow>
          (let req = stt_request STT_ENDPOINT STT_KEY audio;
               res = post env (calls w1) req;
               w2 = record_call req res w1
           in case res of
             Failed \<Rightarrow> (Inl RequestException, w2)
           | Response resp \<Rightarrow>
               if status_code resp \<noteq> 200 then
                 (Inr (PyStr ''''),
                  emit (Error (PyStr (''STT API error: '' @ str_int (status_code resp)
                                       @ '' '' @ resp_text resp))) w2)
               else (case resp_json resp of
                 None \<Rightarrow> (Inl JSONDecodeError, w2)
               | Some data \<Rightarrow> (stt_transcript data, w2))))"

definition call_stt_api :: "env \<Rightarrow> string \<Rightarrow> world \<Rightarrow> (exn + pyval) \<times> world" where
  "call_stt_api env local_file_path w =
     (let w1 = emit (Info (PyStr ''Sending audio to STT API...'')) (enter Transcribe w)
      in case secrets_get env stt_endpoint_entry of
        Inl e \<Rightarrow> (Inl e, w1)
      | Inr STT_ENDPOINT \<Rightarrow>
          (case secrets_get env stt_key_entry of
             Inl e \<Rightarrow> (Inl e, w1)
           | Inr STT_KEY \<Rightarrow>
               if config_missing STT_ENDPOINT STT_KEY then
                 (Inr (PyStr ''''),
                  emit (Error (PyStr
                    ''STT endpoint/key not configured. Check .streamlit/secrets.toml.'')) w1)
               else stt_send env STT_ENDPOINT STT_KEY local_file_path w1))"

definition llm_request :: "string option \<Rightarrow> string option \<Rightarrow> pyval \<Rightarrow> request" where
  "llm_request endpoint key user_text =
     \<lparr>url = opt_str endpoint,
      headers = [(''Authorization'', ''Bearer '' @ opt_str key),
                 (''Content-Type'', ''application/json'')],
      body = Json (PyDict [(''prompt'', user_text), (''max_tokens'', PyInt 512)]),
      timeout = 60\<rparr>"

text \<open>Lines 137 to 147 of \<open>call_llm_api\<close>, after the configuration check.\<close>

definition llm_send ::
  "env \<Rightarrow> string option \<Rightarrow> string option \<Rightarrow> pyval \<Rightarrow> world \<Rightarrow> (exn + pyval) \<times> world" where
  "llm_send env LLM_ENDPOINT LLM_KEY user_text w1 =
     (let req = llm_request LLM_ENDPOINT LLM_KEY user_text;
          res = post env (calls w1) req;
          w2 = record_call req res w1
      in case res of
        Failed \<Rightarrow> (Inl RequestException, w2)
      | Response resp \<Rightarrow>
          if status_code resp \<noteq> 200 then
            (Inr (PyStr ''''),
             emit (Error (PyStr (''LLM API error: '' @ str_int (status_code resp)
                                  @ '' '' @ resp_text resp))) w2)
          else (case resp_json resp of
            None \<Rightarrow> (Inl JSONDecodeError, w2)
          | Some data \<Rightarrow> (llm_reply data, w2)))"

definition call_llm_api :: "env \<Rightarrow> pyval \<Rightarrow> world \<Rightarrow> (exn + pyval) \<times> world" where
  "call_llm_api env user_text w =
     (let w1 = emit (Info (PyStr ''Sending text to LLM...'')) (enter Generate w)
      in case secrets_get env llm_endpoint_entry of
        Inl e \<Rightarrow> (Inl e, w1)
      | Inr LLM_ENDPOINT \<Rightarrow>
          (case secrets_get env llm_key_entry of
             Inl e \<Rightarrow> (Inl e, w1)
           | Inr LLM_KEY \<Rightarrow>
               if config_missing LLM_ENDPOINT LLM_KEY then
                 (Inr (PyStr ''''),
                  emit (Error (PyStr
                    ''LLM endpoint/key not configured. Check .streamlit/secrets.toml.'')) w1)
               else llm_send env LLM_ENDPOINT LLM_KEY user_text w1))"

definition tts_request :: "string option \<Rightarrow> string option \<Rightarrow> pyval \<Rightarrow> string \<Rightarrow> request" where
  "tts_request endpoint key txt voice =
     \<lparr>url = opt_str endpoint,
      headers = [(''Authorization'', ''Bearer '' @ opt_str key),
                 (''Content-Type'', ''application/json'')],
      body = Json (PyDict [(''text'', txt), (''voice'', PyStr voice)]),
      timeout = 120\<rparr>"

text \<open>
  Lines 160 to 169 of \<open>call_tts_api\<close>, after the configuration check. The voice is
  \<open>st.secrets.get("TTS_VOICE", "default")\<close>.
\<close>

definition tts_send ::
  "env \<Rightarrow> string option \<Rightarrow> string option \<Rightarrow> pyval \<Rightarrow> string \<Rightarrow> world
     \<Rightarrow> (exn + string option) \<times> world" where
  "tts_send env TTS_ENDPOINT TTS_KEY txt out_path w1 =
     (case secrets_get env ''TTS_VOICE'' of
        Inl e \<Rightarrow> (Inl e, w1)
      | Inr v \<Rightarrow>
          (let voice = (case v of None \<Rightarrow> ''default'' | Some x \<Rightarrow> x);
               req = tts_request TTS_ENDPOINT TTS_KEY txt voice;
               res = post env (calls w1) req;
               w2 = record_call req res w1
           in case res of
             Failed \<Rightarrow> (Inl RequestException, w2)
           | Response resp \<Rightarrow>
               if status_code resp \<noteq> 200 then
                 (Inr None,
                  emit (Error (PyStr (''TTS API error: '' @ str_int (status_code resp)
                                       @ '' '' @ resp_text resp))) w2)
               else (case open_write env out_path (resp_content resp) w2 of
                 Inl e \<Rightarrow> (Inl e, w2)
               | Inr w3 \<Rightarrow> (Inr (Some out_path), w3))))"

definition call_tts_api :: "env \<Rightarrow> pyval \<Rightarrow> string \<Rightarrow> world \<Rightarrow> (exn + string option) \<times> world" where
  "call_tts_api env txt out_path w =
     (let w1 = emit (Info (PyStr ''Requesting TTS audio...'')) (enter Synthesize w)
      in case secrets_get env tts_endpoint_entry of
        Inl e \<Rightarrow> (Inl e, w1)
      | Inr TTS_ENDPOINT \<Rightarrow>
          (case secrets_get env tts_key_entry of
             Inl e \<Rightarrow> (Inl e, w1)
           | Inr TTS_KEY \<Rightarrow>
               if config_missing TTS_ENDPOINT TTS_KEY then
                 (Inr None,
                  emit (Error (PyStr
                    ''TTS endpoint/key not configured. Check .streamlit/secrets.toml.'')) w1)
               else tts_send env TTS_ENDPOINT TTS_KEY txt out_path w1))"

section \<open>The process button and the diagnostic checkbox\<close>

record upload =
  upload_name :: string
  upload_data :: bytes

text \<open>
  \<open>Path(name).suffix\<close>: the last component of the path from its last dot on, when that
  dot is neither its first nor its last character; the empty string otherwise. The name
  of an uploaded file is a plain file name (no trailing slash).
\<close>

definition path_name :: "string \<Rightarrow> string" where
  "path_name p = rev (takeWhile (\<lambda>c. c \<noteq> CHR ''/'') (rev p))"

definition path_suffix :: "string \<Rightarrow> string" where
  "path_suffix p =
     (let n = path_name p;
          ext = rev (takeWhile (\<lambda>c. c \<noteq> CHR ''.'') (rev n))
      in if CHR ''.'' \<in> set n \<and> ext \<noteq> [] \<and> length ext + 1 < length n
         then CHR ''.'' # ext else [])"

text \<open>
  \<open>tempfile.NamedTemporaryFile(delete=False, suffix=...)\<close> names a file by the temporary
  directory, the prefix \<open>tmp\<close>, a random token and the suffix; the argument \<open>n\<close> counts
  the temporary files of the run.
\<close>

definition temp_name :: "env \<Rightarrow> nat \<Rightarrow> string \<Rightarrow> string" where
  "temp_name env n suffix = tmpdir env @ ''/tmp'' @ tmp_token env n @ suffix"

text \<open>
  \<open>with tempfile.NamedTemporaryFile(...) as tmp: tmp.write(bs)\<close>, giving \<open>tmp.name\<close>:
  the file is created with the content written in the block (nothing at line 203), or
  the call raises when the file cannot be created.
\<close>

definition named_temporary_file ::
  "env \<Rightarrow> nat \<Rightarrow> string \<Rightarrow> bytes \<Rightarrow> world \<Rightarrow> exn + string \<times> world" where
  "named_temporary_file env n suffix bs w =
     (case open_write env (temp_name env n suffix) bs w of
        Inl e \<Rightarrow> Inl e
      | Inr w' \<Rightarrow> Inr (temp_name env n suffix, w'))"

text \<open>
  The body of \<open>if st.button("Process audio ..."):\<close>, lines 174 to 210, written as its
  three nested blocks, innermost first. \<open>synthesize_block\<close> is the \<open>else\<close> branch at
  lines 199 to 210, entered with a reply that is not empty.
\<close>

definition synthesize_block :: "env \<Rightarrow> pyval \<Rightarrow> world \<Rightarrow> (exn + unit) \<times> world" where
  "synthesize_block env ai_reply w =
     (let w5 = emit (Success ai_reply) (emit (Markdown (PyStr ''**AI reply:**'')) w)
      in case named_temporary_file env 1 ''.mp3'' [] w5 of
        Inl e \<Rightarrow> (Inl e, w5)
      | Inr (out_path, w6) \<Rightarrow>
          (case call_tts_api env ai_reply out_path w6 of
             (Inl e, w7) \<Rightarrow> (Inl e, w7)
           | (Inr tts_file, w7) \<Rightarrow>
               if opt_truthy tts_file then
                 (case files w7 (opt_str tts_file) of
                    None \<Rightarrow> (Inl FileNotFoundError, w7)
                  | Some bs \<Rightarrow> (Inr (), emit Balloons (emit (Audio bs) w7)))
               else (Inr (), emit (Error (PyStr ''TTS failed.'')) w7)))"

text \<open>
  \<open>generate_block\<close> is the \<open>else\<close> branch at lines 191 to 210, entered with a transcript
  that is not empty.
\<close>

definition generate_block :: "env \<Rightarrow> pyval \<Rightarrow> world \<Rightarrow> (exn + unit) \<times> world" where
  "generate_block env user_text w =
     (let w3 = emit (Info user_text) (emit (Markdown (PyStr ''**You said:**'')) w)
      in case call_llm_api env user_text w3 of
        (Inl e, w4) \<Rightarrow> (Inl e, w4)
      | (Inr ai_reply, w4) \<Rightarrow>
          if \<not> truthy ai_reply then
            (Inr (), emit (Error (PyStr ''LLM didn't return a reply.'')) w4)
          else synthesize_block env ai_reply w4)"

text \<open>
  \<open>uploaded\<close> is the value of the file uploader: \<open>None\<close>, or a file object (which is
  always true as a condition). Nothing else feeds \<open>audio_path\<close>.
\<close>

definition process_button :: "env \<Rightarrow> upload option \<Rightarrow> world \<Rightarrow> (exn + unit) \<times> world" where
  "process_button env uploaded w =
     (case uploaded of
        None \<Rightarrow> (Inr (), emit (Warning (PyStr
                  ''No audio available. Use the recorder (top) or upload a file.'')) w)
      | Some f \<Rightarrow>
          (case named_temporary_file env 0 (path_suffix (upload_name f)) (upload_data f) w of
             Inl e \<Rightarrow> (Inl e, w)
           | Inr (audio_path, wa) \<Rightarrow>
               if audio_path = [] then (Inr (), emit (Warning (PyStr
                  ''No audio available. Use the recorder (top) or upload a file.'')) wa)
               else (case call_stt_api env audio_path wa of
                 (Inl e, w2) \<Rightarrow> (Inl e, w2)
               | (Inr user_text, w2) \<Rightarrow>
                   if \<not> truthy user_text then
                     (Inr (), emit (Error (PyStr ''No transcription returned.'')) w2)
                   else generate_block env user_text w2)))"

text \<open>
  The dictionary written by the checkbox at lines 215 to 220; each of its three lookups
  is \<open>st.secrets.get(name)\<close>.
\<close>

definition show_configured :: "env \<Rightarrow> exn + (string \<times> bool) list" where
  "show_configured env =
     bindE (secrets_get env ''STT_ENDPOINT'') (\<lambda>stt.
     bindE (secrets_get env ''LLM_ENDPOINT'') (\<lambda>llm.
     bindE (secrets_get env ''TTS_ENDPOINT'') (\<lambda>tts.
       Inr [(''STT_ENDPOINT'', opt_truthy stt),
            (''LLM_ENDPOINT'', opt_truthy llm),
            (''TTS_ENDPOINT'', opt_truthy tts)])))"

text \<open>
  One run of the script. The inputs are the widget values: what the in-page recorder
  posted (base64 audio, if anything), the uploaded file, whether the button was pressed
  and whether the checkbox is ticked. An exception ends the script.
\<close>

record page_input =
  recorder_posted :: "string option"
  uploaded_file :: "upload option"
  process_pressed :: bool
  show_checked :: bool

definition initial_world :: "(string \<rightharpoonup> bytes) \<Rightarrow> world" where
  "initial_world fs =
     \<lparr>events = [Info (PyStr
        ''If the recorder did not return audio, please use 'Upload audio' fallback below.'')],
      calls = [], files = fs, entered = []\<rparr>"

text \<open>The checkbox block, lines 215 to 220.\<close>

definition checkbox_block :: "env \<Rightarrow> bool \<Rightarrow> world \<Rightarrow> (exn + unit) \<times> world" where
  "checkbox_block env checked w =
     (if checked then
        (case show_configured env of
           Inl e \<Rightarrow> (Inl e, w)
         | Inr d \<Rightarrow> (Inr (), emit (Write d) w))
      else (Inr (), w))"

definition app :: "env \<Rightarrow> page_input \<Rightarrow> (string \<rightharpoonup> bytes) \<Rightarrow> (exn + unit) \<times> world" where
  "app env inp fs =
     (case (if process_pressed inp
            then process_button env (uploaded_file inp) (initial_world fs)
            else (Inr (), initial_world fs)) of
        (Inl e, w) \<Rightarrow> (Inl e, w)
      | (Inr u, w) \<Rightarrow> checkbox_block env (show_checked inp) w)"

section \<open>Reading a run in the words of the specification\<close>

text \<open>
  The script has no state variable; the states of the specification are read off what a
  run did. \<open>Done\<close>: audio was handed to the player. \<open>Aborted\<close>: no audio was played and
  the run reported an error or ended in an exception. \<open>Idle\<close>: neither.
\<close>

datatype pipeline_state = Idle | Done | Aborted

fun audio_of :: "ui_event \<Rightarrow> bytes option" where
  "audio_of (Audio bs) = Some bs"
| "audio_of (Info m) = None"
| "audio_of (Error m) = None"
| "audio_of (Warning m) = None"
| "audio_of (Markdown m) = None"
| "audio_of (Success m) = None"
| "audio_of Balloons = None"
| "audio_of (Write d) = None"

fun error_of :: "ui_event \<Rightarrow> pyval option" where
  "error_of (Error m) = Some m"
| "error_of (Info m) = None"
| "error_of (Warning m) = None"
| "error_of (Markdown m) = None"
| "error_of (Success m) = None"
| "error_of (Audio bs) = None"
| "error_of Balloons = None"
| "error_of (Write d) = None"

definition played :: "world \<Rightarrow> bytes list" where
  "played w = List.map_filter audio_of (events w)"

definition errors :: "world \<Rightarrow> pyval list" where
  "errors w = List.map_filter error_of (events w)"

definition run_state :: "(exn + unit) \<times> world \<Rightarrow> pipeline_state" where
  "run_state r =
     (if played (snd r) \<noteq> [] then Done
      else if isl (fst r) \<or> errors (snd r) \<noteq> [] then Aborted
      else Idle)"

text \<open>The causes of the error taxonomy, recognised by the message that reports them.\<close>

datatype cause = ConfigurationError | RemoteCallError | EmptyResult

definition starts_with :: "string \<Rightarrow> string \<Rightarrow> bool" where
  "starts_with p s = (take (length p) s = p)"

fun names_cause :: "cause \<Rightarrow> pyval \<Rightarrow> bool" where
  "names_cause ConfigurationError (PyStr m) =
     (m = ''STT endpoint/key not configured. Check .streamlit/secrets.toml.''
      \<or> m = ''LLM endpoint/key not configured. Check .streamlit/secrets.toml.''
      \<or> m = ''TTS endpoint/key not configured. Check .streamlit/secrets.toml.'')"
| "names_cause RemoteCallError (PyStr m) =
     (starts_with ''STT API error: '' m \<or> starts_with ''LLM API error: '' m
      \<or> starts_with ''TTS API error: '' m)"
| "names_cause EmptyResult (PyStr m) =
     (m = ''No transcription returned.'' \<or> m = ''LLM didn't return a reply.'')"
| "names_cause c PyNone = False"
| "names_cause c (PyBool b) = False"
| "names_cause c (PyInt i) = False"
| "names_cause c (PyList xs) = False"
| "names_cause c (PyDict kv) = False"

definition reported :: "cause \<Rightarrow> world \<Rightarrow> bool" where
  "reported c w = list_ex (names_cause c) (errors w)"

section \<open>Notions used to state the properties\<close>

text \<open>
  The entry of the secrets store under a name, if there is one: what a lookup that does
  not raise returns.
\<close>

definition entry :: "env \<Rightarrow> string \<Rightarrow> string option" where
  "entry env name = (case secrets env of None \<Rightarrow> None | Some store \<Rightarrow> store name)"

text \<open>The missing-configuration check of each stage, on the entries that stage reads.\<close>

fun stage_config_missing :: "env \<Rightarrow> stage \<Rightarrow> bool" where
  "stage_config_missing env Transcribe =
     config_missing (entry env stt_endpoint_entry) (entry env stt_key_entry)"
| "stage_config_missing env Generate =
     config_missing (entry env llm_endpoint_entry) (entry env llm_key_entry)"
| "stage_config_missing env Synthesize =
     config_missing (entry env tts_endpoint_entry) (entry env tts_key_entry)"

text \<open>The key under which the checkbox reports a stage, and what it reports there.\<close>

fun diagnostic_name :: "stage \<Rightarrow> string" where
  "diagnostic_name Transcribe = ''STT_ENDPOINT''"
| "diagnostic_name Generate = ''LLM_ENDPOINT''"
| "diagnostic_name Synthesize = ''TTS_ENDPOINT''"

definition diagnostic_of :: "env \<Rightarrow> stage \<Rightarrow> bool option" where
  "diagnostic_of env s =
     (case show_configured env of
        Inl e \<Rightarrow> None
      | Inr d \<Rightarrow> map_of d (diagnostic_name s))"

text \<open>The field names that \<open>call_stt_api\<close> accepts, in the order of line 124.\<close>

definition transcript_fields :: "string list" where
  "transcript_fields = [''text'', ''transcript'', ''result'']"

text \<open>
  Two readings of "first match wins" over a list of field names. \<open>spec_first_present\<close>
  follows the words of the specification: the earliest name that the response contains
  gives the value. \<open>first_truthy\<close> skips a field whose value is false as a condition
  (empty string, \<open>null\<close>, zero, \<open>false\<close>, empty list or object).
\<close>

fun spec_first_present :: "string list \<Rightarrow> (string \<times> pyval) list \<Rightarrow> pyval option" where
  "spec_first_present [] kv = None"
| "spec_first_present (k # ks) kv =
     (case map_of kv k of Some v \<Rightarrow> Some v | None \<Rightarrow> spec_first_present ks kv)"

fun first_truthy :: "string list \<Rightarrow> (string \<times> pyval) list \<Rightarrow> pyval option" where
  "first_truthy [] kv = None"
| "first_truthy (k # ks) kv =
     (case map_of kv k of
        Some v \<Rightarrow> if truthy v then Some v else first_truthy ks kv
      | None \<Rightarrow> first_truthy ks kv)"

definition or_empty :: "pyval option \<Rightarrow> pyval" where
  "or_empty v = (case v of None \<Rightarrow> PyStr '''' | Some x \<Rightarrow> x)"

text \<open>What a stage added to the page and to the list of calls.\<close>

definition new_events :: "world \<Rightarrow> world \<Rightarrow> ui_event list" where
  "new_events w w' = drop (length (events w)) (events w')"

definition new_calls :: "world \<Rightarrow> world \<Rightarrow> (request \<times> http_result) list" where
  "new_calls w w' = drop (length (calls w)) (calls w')"

text \<open>
  What a stage did, seen from outside: the value it returned, what it showed and the
  requests it sent with their answers.
\<close>

definition observed ::
  "world \<Rightarrow> (exn + 'a) \<times> world
     \<Rightarrow> (exn + 'a) \<times> ui_event list \<times> (request \<times> http_result) list" where
  "observed w r = (fst r, new_events w (snd r), new_calls w (snd r))"

section \<open>Concrete runs\<close>

text \<open>A store that configures the stages, an upload, and some endpoint behaviours.\<close>

definition demo_secrets :: "string \<rightharpoonup> string" where
  "demo_secrets = [stt_endpoint_entry \<mapsto> ''https://speech.example/v1'',
                   stt_key_entry \<mapsto> ''demo-key'']"

definition demo_env ::
  "(string \<rightharpoonup> string) \<Rightarrow> ((request \<times> http_result) list \<Rightarrow> request \<Rightarrow> http_result) \<Rightarrow> env" where
  "demo_env store p =
     \<lparr>secrets = Some store, post = p, tmpdir = ''/tmp'', tmp_token = (\<lambda>n. ''k3x9''),
      can_write = (\<lambda>path. True)\<rparr>"

definition demo_upload :: upload where
  "demo_upload = \<lparr>upload_name = ''clip.wav'', upload_data = [82, 73, 70, 70]\<rparr>"

definition demo_input :: page_input where
  "demo_input = \<lparr>recorder_posted = None, uploaded_file = Some demo_upload,
     process_pressed = True, show_checked = False\<rparr>"

definition stt_ok :: response where
  "stt_ok = \<lparr>status_code = 200, resp_text = ''{\"text\": \"hello\"}'', resp_content = [],
     resp_json = Some (PyDict [(''text'', PyStr ''hello'')])\<rparr>"

definition llm_ok :: response where
  "llm_ok = \<lparr>status_code = 200, resp_text = ''{\"response\": \"ok\"}'', resp_content = [],
     resp_json = Some (PyDict [(''response'', PyStr ''ok'')])\<rparr>"

definition tts_ok :: response where
  "tts_ok = \<lparr>status_code = 200, resp_text = [], resp_content = [73, 68, 51],
     resp_json = None\<rparr>"

definition stt_500 :: response where
  "stt_500 = \<lparr>status_code = 500, resp_text = ''Internal Server Error'', resp_content = [],
     resp_json = None\<rparr>"

definition stt_blank :: response where
  "stt_blank = \<lparr>status_code = 200, resp_text = ''{\"text\": \"\"}'', resp_content = [],
     resp_json = Some (PyDict [(''text'', PyStr '''')])\<rparr>"

definition stt_list :: response where
  "stt_list = \<lparr>status_code = 200, resp_text = ''[]'', resp_content = [],
     resp_json = Some (PyList [])\<rparr>"

text \<open>Endpoints that answer every stage with success, told apart by the calls made so far.\<close>

definition all_ok :: "(request \<times> http_result) list \<Rightarrow> request \<Rightarrow> http_result" where
  "all_ok h req = (if h = [] then Response stt_ok
                   else if length h = 1 then Response llm_ok else Response tts_ok)"

text \<open>Endpoints that give the same answer to every call.\<close>

definition always :: "response \<Rightarrow> (request \<times> http_result) list \<Rightarrow> request \<Rightarrow> http_result" where
  "always r h req = Response r"

text \<open>A world in which something happened before, for the comparison of two runs.\<close>

definition used_world :: world where
  "used_world =
     \<lparr>events = [Info (PyStr ''earlier'')],
      calls = [(\<lparr>url = ''https://other.example/'', headers = [], body = Json PyNone, timeout = 5\<rparr>,
               Failed)],
      files = [''/tmp/clip.wav'' \<mapsto> [82, 73, 70, 70], ''/tmp/old.mp3'' \<mapsto> [0]],
      entered = [Transcribe]\<rparr>"

definition fresh_world :: world where
  "fresh_world = initial_world [''/tmp/clip.wav'' \<mapsto> [82, 73, 70, 70]]"

section \<open>Auxiliary facts\<close>

subsection \<open>Projections of the world operations\<close>

lemma emit_proj [simp]:
  "calls (emit e w) = calls w" "files (emit e w) = files w" "entered (emit e w) = entered w"
  "events (emit e w) = events w @ [e]"
  by (simp_all add: emit_def)

lemma enter_proj [simp]:
  "calls (enter s w) = calls w" "files (enter s w) = files w"
  "entered (enter s w) = entered w @ [s]" "events (enter s w) = events w"
  by (simp_all add: enter_def)

lemma record_call_proj [simp]:
  "calls (record_call rq rs w) = calls w @ [(rq, rs)]" "files (record_call rq rs w) = files w"
  "entered (record_call rq rs w) = entered w" "events (record_call rq rs w) = events w"
  by (simp_all add: record_call_def)

lemma write_file_proj [simp]:
  "calls (write_file p bs w) = calls w" "files (write_file p bs w) = (files w)(p \<mapsto> bs)"
  "entered (write_file p bs w) = entered w" "events (write_file p bs w) = events w"
  by (simp_all add: write_file_def)

lemma played_emit [simp]:
  "played (emit e w) = played w @ (case audio_of e of None \<Rightarrow> [] | Some bs \<Rightarrow> [bs])"
  by (simp add: played_def List.map_filter_def split: option.splits)

lemma errors_emit [simp]:
  "errors (emit e w) = errors w @ (case error_of e of None \<Rightarrow> [] | Some m \<Rightarrow> [m])"
  by (simp add: errors_def List.map_filter_def split: option.splits)

lemma played_other [simp]:
  "played (enter s w) = played w" "played (record_call rq rs w) = played w"
  "played (write_file p bs w) = played w"
  by (simp_all add: played_def)

lemma errors_other [simp]:
  "errors (enter s w) = errors w" "errors (record_call rq rs w) = errors w"
  "errors (write_file p bs w) = errors w"
  by (simp_all add: errors_def)

lemma temp_name_nonempty [simp]: "temp_name env n sfx \<noteq> []"
  by (simp add: temp_name_def)

lemma open_write_proj:
  assumes "open_write env p bs w = Inr w'"
  shows "can_write env p" "w' = write_file p bs w"
  using assms by (simp_all add: open_write_def split: if_splits)

lemma secrets_get_store [simp]:
  "secrets env = Some store \<Longrightarrow> secrets_get env name = Inr (store name)"
  "secrets env = None \<Longrightarrow> secrets_get env name = Inl StreamlitSecretNotFoundError"
  by (simp_all add: secrets_get_def)

lemma entry_store [simp]:
  "secrets env = Some store \<Longrightarrow> entry env name = store name"
  "secrets env = None \<Longrightarrow> entry env name = None"
  by (simp_all add: entry_def)

subsection \<open>What a stage can do\<close>

lemma call_stt_api_cases
  [case_names NoStore Missing NoFile Failed Status NotJson Parsed]:
  fixes env p w
  defines "w1 \<equiv> emit (Info (PyStr ''Sending audio to STT API...'')) (enter Transcribe w)"
  obtains
    "secrets env = None"
    "call_stt_api env p w = (Inl StreamlitSecretNotFoundError, w1)"
  | "secrets env \<noteq> None" "stage_config_missing env Transcribe"
    "call_stt_api env p w = (Inr (PyStr ''''), emit (Error (PyStr
        ''STT endpoint/key not configured. Check .streamlit/secrets.toml.'')) w1)"
  | "secrets env \<noteq> None" "\<not> stage_config_missing env Transcribe" "files w p = None"
    "call_stt_api env p w = (Inl FileNotFoundError, w1)"
  | req where "secrets env \<noteq> None" "\<not> stage_config_missing env Transcribe"
    "post env (calls w) req = Failed"
    "call_stt_api env p w = (Inl RequestException, record_call req Failed w1)"
  | req r where "secrets env \<noteq> None" "\<not> stage_config_missing env Transcribe"
    "post env (calls w) req = Response r" "status_code r \<noteq> 200"
    "call_stt_api env p w = (Inr (PyStr ''''), emit (Error (PyStr (''STT API error: ''
        @ str_int (status_code r) @ '' '' @ resp_text r))) (record_call req (Response r) w1))"
  | req r where "secrets env \<noteq> None" "\<not> stage_config_missing env Transcribe"
    "post env (calls w) req = Response r" "status_code r = 200" "resp_json r = None"
    "call_stt_api env p w = (Inl JSONDecodeError, record_call req (Response r) w1)"
  | req r data where "secrets env \<noteq> None" "\<not> stage_config_missing env Transcribe"
    "post env (calls w) req = Response r" "status_code r = 200" "resp_json r = Some data"
    "call_stt_api env p w = (stt_transcript data, record_call req (Response r) w1)"
proof (cases "secrets env")
  case None
  then show ?thesis using that(1) by (simp add: call_stt_api_def Let_def w1_def)
next
  case (Some store)
  show ?thesis
  proof (cases "stage_config_missing env Transcribe")
    case True
    then show ?thesis using Some that(2) by (simp add: call_stt_api_def Let_def w1_def)
  next
    case nm: False
    show ?thesis
    proof (cases "files w p")
      case None
      then show ?thesis using Some nm that(3)
        by (simp add: call_stt_api_def stt_send_def Let_def w1_def)
    next
      case audio: (Some audio)
      define req where "req = stt_request (store stt_endpoint_entry) (store stt_key_entry) audio"
      show ?thesis
      proof (cases "post env (calls w) req")
        case Failed
        then show ?thesis using Some nm audio that(4) [of req]
          by (simp add: call_stt_api_def stt_send_def Let_def w1_def req_def)
      next
        case (Response r)
        show ?thesis
        proof (cases "status_code r = 200")
          case False
          then show ?thesis using Some nm audio Response that(5) [of req r]
            by (simp add: call_stt_api_def stt_send_def Let_def w1_def req_def)
        next
          case True
          then show ?thesis using Some nm audio Response that(6) [of req r] that(7) [of req r]
            by (cases "resp_json r")
              (simp_all add: call_stt_api_def stt_send_def Let_def w1_def req_def)
        qed
      qed
    qed
  qed
qed

lemma call_llm_api_cases [case_names NoStore Missing Failed Status NotJson Parsed]:
  fixes env t w
  defines "w1 \<equiv> emit (Info (PyStr ''Sending text to LLM...'')) (enter Generate w)"
  obtains
    "secrets env = None"
    "call_llm_api env t w = (Inl StreamlitSecretNotFoundError, w1)"
  | "secrets env \<noteq> None" "stage_config_missing env Generate"
    "call_llm_api env t w = (Inr (PyStr ''''), emit (Error (PyStr
        ''LLM endpoint/key not configured. Check .streamlit/secrets.toml.'')) w1)"
  | req where "\<not> stage_config_missing env Generate" "post env (calls w) req = Failed"
    "call_llm_api env t w = (Inl RequestException, record_call req Failed w1)"
  | req r where "\<not> stage_config_missing env Generate"
    "post env (calls w) req = Response r" "status_code r \<noteq> 200"
    "call_llm_api env t w = (Inr (PyStr ''''), emit (Error (PyStr (''LLM API error: ''
        @ str_int (status_code r) @ '' '' @ resp_text r))) (record_call req (Response r) w1))"
  | req r where "\<not> stage_config_missing env Generate"
    "post env (calls w) req = Response r" "status_code r = 200" "resp_json r = None"
    "call_llm_api env t w = (Inl JSONDecodeError, record_call req (Response r) w1)"
  | req r data where "\<not> stage_config_missing env Generate"
    "post env (calls w) req = Response r" "status_code r = 200" "resp_json r = Some data"
    "call_llm_api env t w = (llm_reply data, record_call req (Response r) w1)"
proof (cases "secrets env")
  case None
  then show ?thesis using that(1) by (simp add: call_llm_api_def Let_def w1_def)
next
  case (Some store)
  show ?thesis
  proof (cases "stage_config_missing env Generate")
    case True
    then show ?thesis using Some that(2) by (simp add: call_llm_api_def Let_def w1_def)
  next
    case nm: False
    define req where "req = llm_request (store llm_endpoint_entry) (store llm_key_entry) t"
    show ?thesis
    proof (cases "post env (calls w) req")
      case Failed
      then show ?thesis using Some nm that(3) [of req]
        by (simp add: call_llm_api_def llm_send_def Let_def w1_def req_def)
    next
      case (Response r)
      show ?thesis
      proof (cases "status_code r = 200")
        case False
        then show ?thesis using Some nm Response that(4) [of req r]
          by (simp add: call_llm_api_def llm_send_def Let_def w1_def req_def)
      next
        case True
        then show ?thesis using Some nm Response that(5) [of req r] that(6) [of req r]
          by (cases "resp_json r")
            (simp_all add: call_llm_api_def llm_send_def Let_def w1_def req_def)
      qed
    qed
  qed
qed

lemma call_tts_api_cases
  [case_names NoStore Missing Failed Status WriteFailed Written]:
  fixes env t out w
  defines "w1 \<equiv> emit (Info (PyStr ''Requesting TTS audio...'')) (enter Synthesize w)"
  obtains
    "secrets env = None"
    "call_tts_api env t out w = (Inl StreamlitSecretNotFoundError, w1)"
  | "secrets env \<noteq> None" "stage_config_missing env Synthesize"
    "call_tts_api env t out w = (Inr None, emit (Error (PyStr
        ''TTS endpoint/key not configured. Check .streamlit/secrets.toml.'')) w1)"
  | req where "\<not> stage_config_missing env Synthesize" "post env (calls w) req = Failed"
    "call_tts_api env t out w = (Inl RequestException, record_call req Failed w1)"
  | req r where "\<not> stage_config_missing env Synthesize"
    "post env (calls w) req = Response r" "status_code r \<noteq> 200"
    "call_tts_api env t out w = (Inr None, emit (Error (PyStr (''TTS API error: ''
        @ str_int (status_code r) @ '' '' @ resp_text r))) (record_call req (Response r) w1))"
  | req r where "\<not> stage_config_missing env Synthesize"
    "post env (calls w) req = Response r" "status_code r = 200" "\<not> can_write env out"
    "call_tts_api env t out w = (Inl OSError, record_call req (Response r) w1)"
  | req r where "\<not> stage_config_missing env Synthesize"
    "post env (calls w) req = Response r" "status_code r = 200" "can_write env out"
    "call_tts_api env t out w =
       (Inr (Some out), write_file out (resp_content r) (record_call req (Response r) w1))"
proof (cases "secrets env")
  case None
  then show ?thesis using that(1) by (simp add: call_tts_api_def Let_def w1_def)
next
  case (Some store)
  show ?thesis
  proof (cases "stage_config_missing env Synthesize")
    case True
    then show ?thesis using Some that(2) by (simp add: call_tts_api_def Let_def w1_def)
  next
    case nm: False
    define req where "req = tts_request (store tts_endpoint_entry) (store tts_key_entry) t
        (case store ''TTS_VOICE'' of None \<Rightarrow> ''default'' | Some x \<Rightarrow> x)"
    show ?thesis
    proof (cases "post env (calls w) req")
      case Failed
      then show ?thesis using Some nm that(3) [of req]
        by (simp add: call_tts_api_def tts_send_def Let_def w1_def req_def)
    next
      case (Response r)
      show ?thesis
      proof (cases "status_code r = 200")
        case False
        then show ?thesis using Some nm Response that(4) [of req r]
          by (simp add: call_tts_api_def tts_send_def Let_def w1_def req_def)
      next
        case True
        then show ?thesis using Some nm Response that(5) [of req r] that(6) [of req r]
          by (cases "can_write env out")
            (simp_all add: call_tts_api_def tts_send_def open_write_def Let_def w1_def req_def)
      qed
    qed
  qed
qed
subsection \<open>What the blocks of the button can do\<close>

lemma named_temporary_file_eq:
  "named_temporary_file env n sfx bs w =
     (if can_write env (temp_name env n sfx)
      then Inr (temp_name env n sfx, write_file (temp_name env n sfx) bs w)
      else Inl OSError)"
  by (simp add: named_temporary_file_def open_write_def)

lemma synthesize_block_cases [case_names Silent Played]:
  assumes run: "synthesize_block env t w = (res, w')"
  obtains
    cs where "calls w' = calls w @ cs" "played w' = played w"
      "cs = [] \<or> (\<exists>req. cs = [(req, Failed)])
       \<or> (\<exists>req r. cs = [(req, Response r)] \<and> status_code r \<noteq> 200)"
  | req r where "calls w' = calls w @ [(req, Response r)]" "status_code r = 200"
      "played w' = played w @ [resp_content r]" "res = Inr ()"
proof (cases "can_write env (temp_name env 1 ''.mp3'')")
  case False
  then show ?thesis using run that(1) [of "[]"]
    by (auto simp add: synthesize_block_def Let_def named_temporary_file_eq)
next
  case cw: True
  have sb: "synthesize_block env t w =
      (case call_tts_api env t (temp_name env 1 ''.mp3'')
              (write_file (temp_name env 1 ''.mp3'') []
                 (emit (Success t) (emit (Markdown (PyStr ''**AI reply:**'')) w))) of
         (Inl e, w7) \<Rightarrow> (Inl e, w7)
       | (Inr tts_file, w7) \<Rightarrow>
           if opt_truthy tts_file then
             (case files w7 (opt_str tts_file) of
                None \<Rightarrow> (Inl FileNotFoundError, w7)
              | Some bs \<Rightarrow> (Inr (), emit Balloons (emit (Audio bs) w7)))
           else (Inr (), emit (Error (PyStr ''TTS failed.'')) w7))"
    using cw by (simp add: synthesize_block_def Let_def named_temporary_file_eq)
  show ?thesis
  proof (cases env t "temp_name env 1 ''.mp3''"
      "write_file (temp_name env 1 ''.mp3'') []
         (emit (Success t) (emit (Markdown (PyStr ''**AI reply:**'')) w))"
      rule: call_tts_api_cases)
    case NoStore
    then show ?thesis using run that(1) [of "[]"] by (auto simp add: sb)
  next
    case Missing
    then show ?thesis using run that(1) [of "[]"] by (auto simp add: sb opt_truthy_def)
  next
    case (Failed req)
    then show ?thesis using run that(1) [of "[(req, http_result.Failed)]"]
      by (auto simp add: sb)
  next
    case (Status req r)
    then show ?thesis using run that(1) [of "[(req, Response r)]"]
      by (auto simp add: sb opt_truthy_def)
  next
    case (WriteFailed req r)
    then show ?thesis using cw by simp
  next
    case (Written req r)
    then show ?thesis using run that(2) [of req r]
      by (auto simp add: sb opt_truthy_def opt_str_def)
  qed
qed

lemma generate_block_cases [case_names Stopped Continued]:
  assumes run: "generate_block env t w = (res, w')"
  obtains
    cs where "calls w' = calls w @ cs" "length cs \<le> 1" "played w' = played w"
  | req r t' w4 where "calls w4 = calls w @ [(req, Response r)]" "status_code r = 200"
      "played w4 = played w" "synthesize_block env t' w4 = (res, w')"
proof (cases env t "emit (Info t) (emit (Markdown (PyStr ''**You said:**'')) w)"
    rule: call_llm_api_cases)
  case NoStore
  then show ?thesis using run that(1) [of "[]"]
    by (auto simp add: generate_block_def Let_def)
next
  case Missing
  then show ?thesis using run that(1) [of "[]"]
    by (auto simp add: generate_block_def Let_def)
next
  case (Failed req)
  then show ?thesis using run that(1) [of "[(req, http_result.Failed)]"]
    by (auto simp add: generate_block_def Let_def)
next
  case (Status req r)
  then show ?thesis using run that(1) [of "[(req, Response r)]"]
    by (auto simp add: generate_block_def Let_def)
next
  case (NotJson req r)
  then show ?thesis using run that(1) [of "[(req, Response r)]"]
    by (auto simp add: generate_block_def Let_def)
next
  case (Parsed req r data)
  show ?thesis
  proof (cases "llm_reply data")
    case (Inl e)
    then show ?thesis using Parsed run that(1) [of "[(req, Response r)]"]
      by (auto simp add: generate_block_def Let_def)
  next
    case (Inr v)
    show ?thesis
    proof (cases "truthy v")
      case False
      then show ?thesis using Inr Parsed run that(1) [of "[(req, Response r)]"]
        by (auto simp add: generate_block_def Let_def)
    next
      case True
      then show ?thesis using Inr Parsed run
          that(2) [of "record_call req (Response r) (emit (Info (PyStr ''Sending text to LLM...''))
             (enter Generate (emit (Info t) (emit (Markdown (PyStr ''**You said:**'')) w))))" req r v]
        by (auto simp add: generate_block_def Let_def)
    qed
  qed
qed

lemma synthesize_block_appends:
  "\<exists>cs. calls (snd (synthesize_block env t w)) = calls w @ cs"
proof -
  obtain res w' where run: "synthesize_block env t w = (res, w')"
    by (cases "synthesize_block env t w")
  show ?thesis
    by (rule synthesize_block_cases [OF run]) (auto simp add: run)
qed

lemma generate_block_appends:
  "\<exists>cs. calls (snd (generate_block env t w)) = calls w @ cs"
proof -
  obtain res w' where run: "generate_block env t w = (res, w')"
    by (cases "generate_block env t w")
  then show ?thesis
  proof (cases rule: generate_block_cases)
    case (Stopped cs)
    then show ?thesis using run by auto
  next
    case (Continued req r t' w4)
    then show ?thesis using run synthesize_block_appends [of env t' w4] by auto
  qed
qed

lemma process_button_cases
  [case_names TempFailed NoStore Missing Failed Status NotJson ParseError Empty Continued]:
  assumes run: "process_button env (Some f) w = (res, w')"
  obtains
    "\<not> can_write env (temp_name env 0 (path_suffix (upload_name f)))"
    "res = Inl OSError" "w' = w"
  | "can_write env (temp_name env 0 (path_suffix (upload_name f)))" "secrets env = None"
    "res = Inl StreamlitSecretNotFoundError" "calls w' = calls w"
    "entered w' = entered w @ [Transcribe]" "played w' = played w" "errors w' = errors w"
  | "can_write env (temp_name env 0 (path_suffix (upload_name f)))" "secrets env \<noteq> None"
    "stage_config_missing env Transcribe" "res = Inr ()" "calls w' = calls w"
    "entered w' = entered w @ [Transcribe]" "played w' = played w"
    "errors w' = errors w @
       [PyStr ''STT endpoint/key not configured. Check .streamlit/secrets.toml.'',
        PyStr ''No transcription returned.'']"
  | req where "secrets env \<noteq> None" "\<not> stage_config_missing env Transcribe"
    "res = Inl RequestException" "calls w' = calls w @ [(req, Failed)]"
    "entered w' = entered w @ [Transcribe]" "played w' = played w" "errors w' = errors w"
  | req r where "secrets env \<noteq> None" "\<not> stage_config_missing env Transcribe"
    "status_code r \<noteq> 200" "res = Inr ()"
    "calls w' = calls w @ [(req, Response r)]"
    "entered w' = entered w @ [Transcribe]" "played w' = played w"
    "errors w' = errors w @
       [PyStr (''STT API error: '' @ str_int (status_code r) @ '' '' @ resp_text r),
        PyStr ''No transcription returned.'']"
  | req r where "secrets env \<noteq> None" "\<not> stage_config_missing env Transcribe"
    "status_code r = 200" "resp_json r = None" "res = Inl JSONDecodeError"
    "calls w' = calls w @ [(req, Response r)]"
    "entered w' = entered w @ [Transcribe]" "played w' = played w" "errors w' = errors w"
  | req r data e where "secrets env \<noteq> None" "\<not> stage_config_missing env Transcribe"
    "status_code r = 200" "resp_json r = Some data"
    "stt_transcript data = Inl e" "res = Inl e"
    "calls w' = calls w @ [(req, Response r)]"
    "entered w' = entered w @ [Transcribe]" "played w' = played w" "errors w' = errors w"
  | req r data v where "secrets env \<noteq> None" "\<not> stage_config_missing env Transcribe"
    "status_code r = 200" "resp_json r = Some data"
    "stt_transcript data = Inr v" "\<not> truthy v" "res = Inr ()"
    "calls w' = calls w @ [(req, Response r)]"
    "entered w' = entered w @ [Transcribe]" "played w' = played w"
    "errors w' = errors w @ [PyStr ''No transcription returned.'']"
  | req r data v w2 where "secrets env \<noteq> None" "\<not> stage_config_missing env Transcribe"
    "status_code r = 200" "resp_json r = Some data"
    "stt_transcript data = Inr v" "truthy v"
    "calls w2 = calls w @ [(req, Response r)]"
    "entered w2 = entered w @ [Transcribe]" "played w2 = played w"
    "generate_block env v w2 = (res, w')"
proof (cases "can_write env (temp_name env 0 (path_suffix (upload_name f)))")
  case False
  then show ?thesis using run that(1)
    by (simp add: process_button_def named_temporary_file_eq)
next
  case cw: True
  define p where "p = temp_name env 0 (path_suffix (upload_name f))"
  define wa where "wa = write_file p (upload_data f) w"
  have pb: "process_button env (Some f) w =
      (case call_stt_api env p wa of
         (Inl e, w2) \<Rightarrow> (Inl e, w2)
       | (Inr user_text, w2) \<Rightarrow>
           if \<not> truthy user_text then
             (Inr (), emit (Error (PyStr ''No transcription returned.'')) w2)
           else generate_block env user_text w2)"
    using cw by (simp add: process_button_def named_temporary_file_eq p_def wa_def)
  show ?thesis
  proof (cases env p wa rule: call_stt_api_cases)
    case NoStore
    then show ?thesis using run cw that(2) by (auto simp add: pb wa_def)
  next
    case Missing
    then show ?thesis using run cw that(3) by (auto simp add: pb wa_def)
  next
    case NoFile
    then show ?thesis by (simp add: wa_def)
  next
    case (Failed req)
    then show ?thesis using run that(4) [of req] by (auto simp add: pb wa_def)
  next
    case (Status req r)
    then show ?thesis using run that(5) [of r req] by (auto simp add: pb wa_def)
  next
    case (NotJson req r)
    then show ?thesis using run that(6) [of r req] by (auto simp add: pb wa_def)
  next
    case (Parsed req r data)
    show ?thesis
    proof (cases "stt_transcript data")
      case (Inl e)
      then show ?thesis using Parsed run that(7) [of r data e req] by (auto simp add: pb wa_def)
    next
      case (Inr v)
      show ?thesis
      proof (cases "truthy v")
        case False
        then show ?thesis using Inr Parsed run that(8) [of r data v req]
          by (auto simp add: pb wa_def)
      next
        case True
        then show ?thesis using Inr Parsed run
            that(9) [of r data v "record_call req (Response r)
               (emit (Info (PyStr ''Sending audio to STT API...'')) (enter Transcribe wa))" req]
          by (auto simp add: pb wa_def)
      qed
    qed
  qed
qed

subsection \<open>From the button to the script\<close>

lemma checkbox_block_proj [simp]:
  "calls (snd (checkbox_block env c w)) = calls w"
  "entered (snd (checkbox_block env c w)) = entered w"
  "played (snd (checkbox_block env c w)) = played w"
  "errors (snd (checkbox_block env c w)) = errors w"
  "files (snd (checkbox_block env c w)) = files w"
  by (simp_all add: checkbox_block_def split: sum.splits)

lemma show_configured_store:
  "secrets env = Some store \<Longrightarrow> show_configured env =
     Inr [(''STT_ENDPOINT'', opt_truthy (store ''STT_ENDPOINT'')),
          (''LLM_ENDPOINT'', opt_truthy (store ''LLM_ENDPOINT'')),
          (''TTS_ENDPOINT'', opt_truthy (store ''TTS_ENDPOINT''))]"
  "secrets env = None \<Longrightarrow> show_configured env = Inl StreamlitSecretNotFoundError"
  by (simp_all add: show_configured_def)

lemma checkbox_block_store:
  "secrets env \<noteq> None \<Longrightarrow> fst (checkbox_block env c w) = Inr ()"
  by (auto simp add: checkbox_block_def show_configured_store)

lemma initial_world_proj [simp]:
  "calls (initial_world fs) = []" "entered (initial_world fs) = []"
  "played (initial_world fs) = []" "errors (initial_world fs) = []"
  "files (initial_world fs) = fs"
  by (simp_all add: initial_world_def played_def errors_def)

lemma app_not_pressed:
  assumes "\<not> process_pressed inp"
  shows "calls (snd (app env inp fs)) = []" "entered (snd (app env inp fs)) = []"
    "played (snd (app env inp fs)) = []" "errors (snd (app env inp fs)) = []"
  using assms by (simp_all add: app_def)

lemma app_pressed:
  assumes "process_pressed inp"
    and "process_button env (uploaded_file inp) (initial_world fs) = (res, w')"
  shows "calls (snd (app env inp fs)) = calls w'"
    "entered (snd (app env inp fs)) = entered w'" "played (snd (app env inp fs)) = played w'"
    "errors (snd (app env inp fs)) = errors w'" "files (snd (app env inp fs)) = files w'"
    "fst (app env inp fs) =
       (case res of Inl e \<Rightarrow> Inl e | Inr u \<Rightarrow> fst (checkbox_block env (show_checked inp) w'))"
  using assms by (cases res; simp add: app_def)+

lemma process_button_None:
  "process_button env None w = (Inr (), emit (Warning (PyStr
      ''No audio available. Use the recorder (top) or upload a file.'')) w)"
  by (simp add: process_button_def)

lemma stt_transcript_all_falsy:
  assumes "\<forall>k \<in> set transcript_fields. case map_of kv k of None \<Rightarrow> True | Some v \<Rightarrow> \<not> truthy v"
  shows "stt_transcript (PyDict kv) = Inr (PyStr '''')"
  using assms
  by (simp add: transcript_fields_def stt_transcript_def py_or_def split: option.splits)

lemma same_entries:
  "stage_config_missing env s = stage_config_missing env Transcribe"
  by (cases s) (simp_all add: stt_endpoint_entry_def llm_endpoint_entry_def tts_endpoint_entry_def
      stt_key_entry_def llm_key_entry_def tts_key_entry_def)

lemma app_ignores_recorder:
  "app env (inp\<lparr>recorder_posted := posted\<rparr>) fs = app env inp fs"
  by (simp add: app_def split: prod.splits sum.splits)
subsection \<open>Two runs of a stage\<close>

lemma observed_fst: "fst (observed w r) = fst r"
  by (simp add: observed_def)

lemma stt_two_runs:
  assumes cfg: "secrets e1 = secrets e2"
    and net: "post e1 (calls w1) = post e2 (calls w2)"
    and inp: "files w1 p = files w2 p"
  shows "observed w1 (call_stt_api e1 p w1) = observed w2 (call_stt_api e2 p w2)"
  by (simp add: call_stt_api_def stt_send_def secrets_get_def Let_def observed_def
      new_events_def new_calls_def cfg net inp
      split: option.split http_result.split)

lemma llm_two_runs:
  assumes cfg: "secrets e1 = secrets e2"
    and net: "post e1 (calls w1) = post e2 (calls w2)"
  shows "observed w1 (call_llm_api e1 t w1) = observed w2 (call_llm_api e2 t w2)"
  by (simp add: call_llm_api_def llm_send_def secrets_get_def Let_def observed_def
      new_events_def new_calls_def cfg net
      split: option.split http_result.split)

lemma tts_two_runs:
  assumes cfg: "secrets e1 = secrets e2"
    and net: "post e1 (calls w1) = post e2 (calls w2)"
    and fsys: "can_write e1 out = can_write e2 out"
  shows "observed w1 (call_tts_api e1 t out w1) = observed w2 (call_tts_api e2 t out w2)"
    and "fst (call_tts_api e1 t out w1) = Inr (Some out) \<longrightarrow>
         files (snd (call_tts_api e1 t out w1)) out = files (snd (call_tts_api e2 t out w2)) out"
  by (simp_all add: call_tts_api_def tts_send_def secrets_get_def open_write_def Let_def
      observed_def new_events_def new_calls_def cfg net fsys
      split: option.split http_result.split)

subsection \<open>Unfolding a concrete run\<close>

lemmas run_defs = app_def checkbox_block_def show_configured_def process_button_def
  generate_block_def synthesize_block_def named_temporary_file_def open_write_def
  call_stt_api_def stt_send_def call_llm_api_def llm_send_def call_tts_api_def tts_send_def
  secrets_get_def Let_def config_missing_def opt_truthy_def opt_str_def
  stt_endpoint_entry_def stt_key_entry_def llm_endpoint_entry_def llm_key_entry_def
  tts_endpoint_entry_def tts_key_entry_def stt_transcript_def llm_reply_def llm_structured_def
  llm_from_flat_def llm_from_choices_def py_or_def initial_world_def

lemmas demo_defs = demo_secrets_def demo_env_def demo_input_def demo_upload_def stt_ok_def
  llm_ok_def tts_ok_def all_ok_def always_def stt_500_def stt_blank_def stt_list_def
section \<open>Properties of the pipeline\<close>

subsection \<open>C1: three successful calls end in \<open>Done\<close> with the synthesized bytes\<close>

text \<open>
  C1. A run of the script in which three HTTP calls were made (the calls of Transcribe,
  Generate and Synthesize, in that order) and each returned status 200 ends in \<open>Done\<close>
  without an exception, and the audio handed to the player is exactly the body of the
  third response: the bytes are written to the output file and read back unchanged.
  That three calls were made already says that an audio file was uploaded and that the
  endpoints are configured.
\<close>

theorem all_success_done:
  assumes three: "map snd (calls (snd (app env inp fs))) = [Response r1, Response r2, Response r3]"
    and ok: "status_code r1 = 200" "status_code r2 = 200" "status_code r3 = 200"
  shows "run_state (app env inp fs) = Done
         \<and> played (snd (app env inp fs)) = [resp_content r3]
         \<and> fst (app env inp fs) = Inr ()"
proof -
  have pressed: "process_pressed inp"
  proof (rule ccontr)
    assume "\<not> process_pressed inp"
    then have "calls (snd (app env inp fs)) = []"
      by (rule app_not_pressed(1))
    then show False using three by simp
  qed
  obtain res w' where run: "process_button env (uploaded_file inp) (initial_world fs) = (res, w')"
    by (cases "process_button env (uploaded_file inp) (initial_world fs)")
  note app = app_pressed [OF pressed run]
  have c: "map snd (calls w') = [Response r1, Response r2, Response r3]"
    using three app(1) by simp
  obtain f where up: "uploaded_file inp = Some f"
    using run c by (cases "uploaded_file inp") (auto simp add: process_button_None)
  have st: "played w' \<noteq> [] \<Longrightarrow> run_state (app env inp fs) = Done"
    by (simp add: run_state_def app)
  from run [unfolded up] show ?thesis
  proof (cases rule: process_button_cases)
    case (Continued rq1 r1' data v w2)
    have fin: "res = Inr () \<Longrightarrow> fst (app env inp fs) = Inr ()"
      using Continued(1) by (simp add: app(6) checkbox_block_store)
    from Continued(10) show ?thesis
    proof (cases rule: generate_block_cases)
      case (Stopped cs)
      then show ?thesis using c Continued by (cases cs) auto
    next
      case gen: (Continued rq2 r2' t' w4)
      from gen(4) show ?thesis
      proof (cases rule: synthesize_block_cases)
        case (Silent cs)
        then show ?thesis using c Continued gen ok by auto
      next
        case (Played rq3 r3')
        then show ?thesis using c Continued gen fin by (simp add: st app)
      qed
    qed
  qed (use c in auto)
qed

lemma demo_run_calls:
  "map snd (calls (snd (app (demo_env demo_secrets all_ok) demo_input Map.empty)))
     = [Response stt_ok, Response llm_ok, Response tts_ok]"
  by (simp add: run_defs demo_defs)

theorem all_success_done_witness:
  "map snd (calls (snd (app (demo_env demo_secrets all_ok) demo_input Map.empty)))
     = [Response stt_ok, Response llm_ok, Response tts_ok]
   \<and> status_code stt_ok = 200 \<and> status_code llm_ok = 200 \<and> status_code tts_ok = 200
   \<and> run_state (app (demo_env demo_secrets all_ok) demo_input Map.empty) = Done
   \<and> played (snd (app (demo_env demo_secrets all_ok) demo_input Map.empty)) = [[73, 68, 51]]"
proof -
  have s: "status_code stt_ok = 200" "status_code llm_ok = 200" "status_code tts_ok = 200"
    by (simp_all add: stt_ok_def llm_ok_def tts_ok_def)
  have c: "resp_content tts_ok = [73, 68, 51]"
    by (simp add: tts_ok_def)
  show ?thesis
    using all_success_done [OF demo_run_calls s] s demo_run_calls c by simp
qed

subsection \<open>C2: a stage without configuration sends nothing\<close>

text \<open>
  C2, as amended. For each stage: when the endpoint or the key that the stage reads is
  absent or empty and the button is pressed with an uploaded file, the run makes no
  HTTP call at all, hence none for that stage or a later one, and it ends in \<open>Aborted\<close>.
  When moreover the secrets store exists and the upload could be saved to its temporary
  file, Transcribe is the only stage entered and a configuration error is shown: the
  three stages read the same two entries, so the check already fails there.
\<close>

theorem missing_config_no_request:
  assumes pressed: "process_pressed inp" and up: "uploaded_file inp = Some f"
    and missing: "stage_config_missing env s"
  shows "calls (snd (app env inp fs)) = []
         \<and> run_state (app env inp fs) = Aborted
         \<and> (secrets env \<noteq> None
              \<and> can_write env (temp_name env 0 (path_suffix (upload_name f))) \<longrightarrow>
             entered (snd (app env inp fs)) = [Transcribe]
             \<and> reported ConfigurationError (snd (app env inp fs)))"
proof -
  have m: "stage_config_missing env Transcribe"
    using missing same_entries by blast
  obtain res w' where run: "process_button env (uploaded_file inp) (initial_world fs) = (res, w')"
    by (cases "process_button env (uploaded_file inp) (initial_world fs)")
  note app = app_pressed [OF pressed run]
  have st: "run_state (app env inp fs) =
      (if played w' \<noteq> [] then Done
       else if isl (fst (app env inp fs)) \<or> errors w' \<noteq> [] then Aborted else Idle)"
    by (simp add: run_state_def app)
  from run [unfolded up] show ?thesis
  proof (cases rule: process_button_cases)
    case TempFailed
    then show ?thesis by (simp add: st app)
  next
    case NoStore
    then show ?thesis by (simp add: st app)
  next
    case Missing
    then show ?thesis by (simp add: st app reported_def)
  qed (use m in simp_all)
qed

theorem missing_config_no_request_witness:
  "process_pressed demo_input \<and> uploaded_file demo_input = Some demo_upload
   \<and> stage_config_missing (demo_env Map.empty all_ok) Synthesize
   \<and> calls (snd (app (demo_env Map.empty all_ok) demo_input Map.empty)) = []
   \<and> run_state (app (demo_env Map.empty all_ok) demo_input Map.empty) = Aborted
   \<and> reported ConfigurationError (snd (app (demo_env Map.empty all_ok) demo_input Map.empty))"
proof -
  have p: "process_pressed demo_input" and u: "uploaded_file demo_input = Some demo_upload"
    by (simp_all add: demo_input_def)
  have m: "stage_config_missing (demo_env Map.empty all_ok) Synthesize"
    by (simp add: demo_env_def config_missing_def opt_truthy_def entry_def)
  have e: "secrets (demo_env Map.empty all_ok) \<noteq> None"
    "can_write (demo_env Map.empty all_ok) path" for path
    by (simp_all add: demo_env_def)
  show ?thesis
    using missing_config_no_request [OF p u m] p u m e by simp
qed

text \<open>
  The claim as the specification words it, "halts with a configuration-error cause
  reported", fails when there is no secrets store at all: every entry is absent, the
  first lookup at line 111 raises before the check, and no configuration error is shown.
\<close>

theorem missing_config_no_store_counterexample:
  "stage_config_missing ((demo_env Map.empty all_ok)\<lparr>secrets := None\<rparr>) Transcribe
   \<and> process_pressed demo_input \<and> uploaded_file demo_input = Some demo_upload
   \<and> fst (app ((demo_env Map.empty all_ok)\<lparr>secrets := None\<rparr>) demo_input Map.empty)
       = Inl StreamlitSecretNotFoundError
   \<and> \<not> reported ConfigurationError
         (snd (app ((demo_env Map.empty all_ok)\<lparr>secrets := None\<rparr>) demo_input Map.empty))"
  by (simp add: run_defs demo_defs entry_def reported_def errors_def emit_def enter_def
      write_file_def List.map_filter_def)

subsection \<open>C3: a failed transcription call is the only call\<close>

text \<open>
  C3. In every run whose first HTTP call (the call of Transcribe) returns a status
  other than 200, for instance 500, that call is the only call of the run, the run ends
  in \<open>Aborted\<close>, and Transcribe is the only stage that was entered: Generate and
  Synthesize are never invoked.
\<close>

theorem transcribe_failure_single_call:
  assumes first: "calls (snd (app env inp fs)) = (req, Response r) # rest"
    and status: "status_code r \<noteq> 200"
  shows "rest = [] \<and> run_state (app env inp fs) = Aborted
         \<and> entered (snd (app env inp fs)) = [Transcribe]"
proof -
  have pressed: "process_pressed inp"
    using first app_not_pressed(1) [of inp env fs] by auto
  obtain res w' where run: "process_button env (uploaded_file inp) (initial_world fs) = (res, w')"
    by (cases "process_button env (uploaded_file inp) (initial_world fs)")
  note app = app_pressed [OF pressed run]
  have c: "calls w' = (req, Response r) # rest"
    using first app(1) by simp
  obtain f where up: "uploaded_file inp = Some f"
    using run c by (cases "uploaded_file inp") (auto simp add: process_button_None)
  have st: "errors w' \<noteq> [] \<Longrightarrow> played w' = [] \<Longrightarrow> run_state (app env inp fs) = Aborted"
    by (simp add: run_state_def app)
  from run [unfolded up] show ?thesis
  proof (cases rule: process_button_cases)
    case TempFailed
    then show ?thesis using c by simp
  next
    case NoStore
    then show ?thesis using c by simp
  next
    case Missing
    then show ?thesis using c by simp
  next
    case (Failed rq)
    then show ?thesis using c by simp
  next
    case (Status rq r')
    then show ?thesis using c by (simp add: st app)
  next
    case (NotJson rq r')
    then show ?thesis using c status by simp
  next
    case (ParseError rq r' data e)
    then show ?thesis using c status by simp
  next
    case (Empty rq r' data v)
    then show ?thesis using c status by simp
  next
    case (Continued rq r' data v w2)
    then show ?thesis using c status generate_block_appends [of env v w2] by auto
  qed
qed

lemma demo_run_500:
  "calls (snd (app (demo_env demo_secrets (always stt_500)) demo_input Map.empty))
     = [(stt_request (Some ''https://speech.example/v1'') (Some ''demo-key'') [82, 73, 70, 70],
         Response stt_500)]"
  by (simp add: run_defs demo_defs)

theorem transcribe_failure_single_call_witness:
  "calls (snd (app (demo_env demo_secrets (always stt_500)) demo_input Map.empty))
     = (stt_request (Some ''https://speech.example/v1'') (Some ''demo-key'') [82, 73, 70, 70],
        Response stt_500) # []
   \<and> status_code stt_500 \<noteq> 200
   \<and> run_state (app (demo_env demo_secrets (always stt_500)) demo_input Map.empty) = Aborted
   \<and> entered (snd (app (demo_env demo_secrets (always stt_500)) demo_input Map.empty))
       = [Transcribe]"
proof -
  have s: "status_code stt_500 \<noteq> 200"
    by (simp add: stt_500_def)
  show ?thesis
    using transcribe_failure_single_call [OF demo_run_500 s] demo_run_500 s by simp
qed
subsection \<open>C4: which field gives the transcript\<close>

text \<open>
  C4, as amended. For a successful STT response that is a JSON object, the transcript
  is the value of the first of the fields \<open>text\<close>, \<open>transcript\<close>, \<open>result\<close>, in this
  fixed order, whose value is not empty (true as a Python condition), and the empty
  string when there is none. In particular \<open>{"transcript": "hello"}\<close> gives \<open>hello\<close>.
  A field that is present but empty does not win: the next field is tried.
\<close>

theorem stt_transcript_first_truthy:
  "stt_transcript (PyDict kv) = Inr (or_empty (first_truthy transcript_fields kv))
   \<and> stt_transcript (PyDict [(''transcript'', PyStr ''hello'')]) = Inr (PyStr ''hello'')"
  by (simp add: stt_transcript_def py_or_def or_empty_def transcript_fields_def
      split: option.splits)

theorem stt_transcript_first_truthy_witness:
  "stt_transcript (PyDict [(''text'', PyStr ''''), (''transcript'', PyStr ''hello''),
                           (''result'', PyStr ''other'')])
     = Inr (PyStr ''hello'')"
  using stt_transcript_first_truthy
    [of "[(''text'', PyStr ''''), (''transcript'', PyStr ''hello''), (''result'', PyStr ''other'')]"]
  by (simp add: or_empty_def transcript_fields_def)

text \<open>
  The claim as the specification words it, "the value of the earliest field in the
  priority order is returned", fails on a response whose \<open>text\<close> field is empty.
\<close>

theorem stt_earliest_field_counterexample:
  "stt_transcript (PyDict [(''text'', PyStr ''''), (''transcript'', PyStr ''hello'')])
     \<noteq> Inr (or_empty (spec_first_present transcript_fields
                 [(''text'', PyStr ''''), (''transcript'', PyStr ''hello'')]))"
  by (simp add: stt_transcript_def py_or_def or_empty_def transcript_fields_def)

subsection \<open>C5: which field gives the reply\<close>

text \<open>
  C5, as amended. For a successful LLM response that is a JSON object: when \<open>choices\<close>
  is absent or an empty list, the reply is \<open>response\<close> if that is not empty, else
  \<open>text\<close> if that is not empty, else the empty string. When \<open>choices\<close> is a list whose
  first element is an object, only that element is read and the flat fields are not
  consulted: the reply is its \<open>text\<close> if not empty; else the empty string when it has no
  \<open>message\<close>; else, when \<open>message\<close> is an object, the \<open>content\<close> of \<open>message\<close> (the
  empty string when \<open>content\<close> is missing); and when \<open>message\<close> is present but is not
  an object, the extraction raises and there is no reply. In particular
  \<open>{"choices":[{"message":{"content":"hi there"}}]}\<close> gives \<open>hi there\<close> and
  \<open>{"response":"ok"}\<close> gives \<open>ok\<close>.
\<close>

theorem llm_reply_by_branch:
  "(map_of kv ''choices'' = None \<or> map_of kv ''choices'' = Some (PyList []) \<longrightarrow>
      llm_reply (PyDict kv) = Inr (or_empty (first_truthy [''response'', ''text''] kv)))
   \<and> (map_of kv ''choices'' = Some (PyList (PyDict c0 # cs)) \<longrightarrow>
      llm_reply (PyDict kv) =
        (case first_truthy [''text''] c0 of
           Some t \<Rightarrow> Inr t
         | None \<Rightarrow>
             (case map_of c0 ''message'' of
                None \<Rightarrow> Inr (PyStr '''')
              | Some (PyDict mk) \<Rightarrow>
                  Inr (case map_of mk ''content'' of None \<Rightarrow> PyStr '''' | Some c \<Rightarrow> c)
              | Some PyNone \<Rightarrow> Inl AttributeError
              | Some (PyBool b) \<Rightarrow> Inl AttributeError
              | Some (PyInt i) \<Rightarrow> Inl AttributeError
              | Some (PyStr s) \<Rightarrow> Inl AttributeError
              | Some (PyList xs) \<Rightarrow> Inl AttributeError)))
   \<and> llm_reply (PyDict [(''choices'',
          PyList [PyDict [(''message'', PyDict [(''content'', PyStr ''hi there'')])]])])
       = Inr (PyStr ''hi there'')
   \<and> llm_reply (PyDict [(''response'', PyStr ''ok'')]) = Inr (PyStr ''ok'')"
proof (intro conjI impI)
  assume "map_of kv ''choices'' = None \<or> map_of kv ''choices'' = Some (PyList [])"
  then show "llm_reply (PyDict kv) = Inr (or_empty (first_truthy [''response'', ''text''] kv))"
    by (auto simp add: llm_reply_def llm_structured_def llm_from_flat_def py_or_def or_empty_def
        split: option.splits)
next
  assume "map_of kv ''choices'' = Some (PyList (PyDict c0 # cs))"
  then show "llm_reply (PyDict kv) =
        (case first_truthy [''text''] c0 of
           Some t \<Rightarrow> Inr t
         | None \<Rightarrow>
             (case map_of c0 ''message'' of
                None \<Rightarrow> Inr (PyStr '''')
              | Some (PyDict mk) \<Rightarrow>
                  Inr (case map_of mk ''content'' of None \<Rightarrow> PyStr '''' | Some c \<Rightarrow> c)
              | Some PyNone \<Rightarrow> Inl AttributeError
              | Some (PyBool b) \<Rightarrow> Inl AttributeError
              | Some (PyInt i) \<Rightarrow> Inl AttributeError
              | Some (PyStr s) \<Rightarrow> Inl AttributeError
              | Some (PyList xs) \<Rightarrow> Inl AttributeError))"
    by (simp add: llm_reply_def llm_structured_def llm_from_choices_def
        split: option.splits pyval.splits)
next
  show "llm_reply (PyDict [(''choices'',
          PyList [PyDict [(''message'', PyDict [(''content'', PyStr ''hi there'')])]])])
       = Inr (PyStr ''hi there'')"
    by (simp add: llm_reply_def llm_structured_def llm_from_choices_def)
next
  show "llm_reply (PyDict [(''response'', PyStr ''ok'')]) = Inr (PyStr ''ok'')"
    by (simp add: llm_reply_def llm_structured_def llm_from_flat_def)
qed

theorem llm_reply_by_branch_witness:
  "map_of [(''choices'', PyList [PyDict [(''text'', PyStr ''hey'')]]), (''response'', PyStr ''ok'')]
      ''choices'' = Some (PyList (PyDict [(''text'', PyStr ''hey'')] # []))
   \<and> llm_reply (PyDict [(''choices'', PyList [PyDict [(''text'', PyStr ''hey'')]]),
                          (''response'', PyStr ''ok'')]) = Inr (PyStr ''hey'')
   \<and> map_of [(''text'', PyStr ''flat'')] ''choices'' = None
   \<and> llm_reply (PyDict [(''text'', PyStr ''flat'')]) = Inr (PyStr ''flat'')
   \<and> llm_reply (PyDict [(''choices'', PyList [PyDict [(''message'', PyNone)]]),
                          (''response'', PyStr ''ok'')]) = Inl AttributeError"
  using llm_reply_by_branch
    [of "[(''choices'', PyList [PyDict [(''text'', PyStr ''hey'')]]), (''response'', PyStr ''ok'')]"
        "[(''text'', PyStr ''hey'')]" "[]"]
    llm_reply_by_branch [of "[(''text'', PyStr ''flat'')]"]
    llm_reply_by_branch
    [of "[(''choices'', PyList [PyDict [(''message'', PyNone)]]), (''response'', PyStr ''ok'')]"
        "[(''message'', PyNone)]" "[]"]
  by (simp add: or_empty_def)

text \<open>
  The claim as the specification words it, "when the choices extraction yields no value
  it falls back to the flat fields", fails on \<open>{"choices":[{}],"response":"ok"}\<close>: the
  extraction from \<open>choices\<close> gives the empty string, the flat fields would give \<open>ok\<close>,
  and the reply is the empty string.
\<close>

theorem llm_no_fallback_counterexample:
  "llm_from_choices (PyDict [(''choices'', PyList [PyDict []]), (''response'', PyStr ''ok'')])
     = Inr (PyStr '''')
   \<and> llm_from_flat (PyDict [(''choices'', PyList [PyDict []]), (''response'', PyStr ''ok'')])
     = Inr (PyStr ''ok'')
   \<and> llm_reply (PyDict [(''choices'', PyList [PyDict []]), (''response'', PyStr ''ok'')])
     \<noteq> llm_from_flat (PyDict [(''choices'', PyList [PyDict []]), (''response'', PyStr ''ok'')])"
  by (simp add: llm_reply_def llm_structured_def llm_from_choices_def llm_from_flat_def)

subsection \<open>C6: an empty transcript stops the run\<close>

text \<open>
  C6, as amended. In every run whose first HTTP call (the call of Transcribe) returns
  status 200 with a JSON object in which each of the fields \<open>text\<close>, \<open>transcript\<close>,
  \<open>result\<close> is absent or empty, that call is the only call, the run ends in \<open>Aborted\<close>,
  Generate is never entered, and the only error shown is "No transcription returned.":
  the empty-result cause is reported, and neither a remote-call error nor a configuration
  error is.
\<close>

theorem empty_transcript_aborts:
  assumes first: "calls (snd (app env inp fs)) = (req, Response r) # rest"
    and status: "status_code r = 200"
    and body: "resp_json r = Some (PyDict kv)"
    and empty: "\<forall>k \<in> set transcript_fields.
                  case map_of kv k of None \<Rightarrow> True | Some v \<Rightarrow> \<not> truthy v"
  shows "rest = [] \<and> run_state (app env inp fs) = Aborted
         \<and> entered (snd (app env inp fs)) = [Transcribe]
         \<and> errors (snd (app env inp fs)) = [PyStr ''No transcription returned.'']
         \<and> reported EmptyResult (snd (app env inp fs))
         \<and> \<not> reported RemoteCallError (snd (app env inp fs))
         \<and> \<not> reported ConfigurationError (snd (app env inp fs))"
proof -
  have pressed: "process_pressed inp"
    using first app_not_pressed(1) [of inp env fs] by auto
  obtain res w' where run: "process_button env (uploaded_file inp) (initial_world fs) = (res, w')"
    by (cases "process_button env (uploaded_file inp) (initial_world fs)")
  note app = app_pressed [OF pressed run]
  have c: "calls w' = (req, Response r) # rest"
    using first app(1) by simp
  obtain f where up: "uploaded_file inp = Some f"
    using run c by (cases "uploaded_file inp") (auto simp add: process_button_None)
  have st: "errors w' \<noteq> [] \<Longrightarrow> played w' = [] \<Longrightarrow> run_state (app env inp fs) = Aborted"
    by (simp add: run_state_def app)
  have tr: "stt_transcript (PyDict kv) = Inr (PyStr '''')"
    using empty by (rule stt_transcript_all_falsy)
  from run [unfolded up] show ?thesis
  proof (cases rule: process_button_cases)
    case TempFailed
    then show ?thesis using c by simp
  next
    case NoStore
    then show ?thesis using c by simp
  next
    case Missing
    then show ?thesis using c by simp
  next
    case (Failed rq)
    then show ?thesis using c by simp
  next
    case (Status rq r')
    then show ?thesis using c status by simp
  next
    case (NotJson rq r')
    then show ?thesis using c body by simp
  next
    case (ParseError rq r' data e)
    then show ?thesis using c body tr by simp
  next
    case (Empty rq r' data v)
    then show ?thesis using c by (simp add: st app reported_def starts_with_def)
  next
    case (Continued rq r' data v w2)
    then show ?thesis using c body tr generate_block_appends [of env v w2] by auto
  qed
qed

lemma demo_run_blank:
  "calls (snd (app (demo_env demo_secrets (always stt_blank)) demo_input Map.empty))
     = [(stt_request (Some ''https://speech.example/v1'') (Some ''demo-key'') [82, 73, 70, 70],
         Response stt_blank)]"
  by (simp add: run_defs demo_defs)

theorem empty_transcript_aborts_witness:
  "calls (snd (app (demo_env demo_secrets (always stt_blank)) demo_input Map.empty))
     = (stt_request (Some ''https://speech.example/v1'') (Some ''demo-key'') [82, 73, 70, 70],
        Response stt_blank) # []
   \<and> status_code stt_blank = 200
   \<and> resp_json stt_blank = Some (PyDict [(''text'', PyStr '''')])
   \<and> first_truthy transcript_fields [(''text'', PyStr '''')] = None
   \<and> run_state (app (demo_env demo_secrets (always stt_blank)) demo_input Map.empty) = Aborted
   \<and> errors (snd (app (demo_env demo_secrets (always stt_blank)) demo_input Map.empty))
       = [PyStr ''No transcription returned.'']
   \<and> \<not> reported RemoteCallError
         (snd (app (demo_env demo_secrets (always stt_blank)) demo_input Map.empty))"
proof -
  have s: "status_code stt_blank = 200"
    and b: "resp_json stt_blank = Some (PyDict [(''text'', PyStr '''')])"
    by (simp_all add: stt_blank_def)
  have e: "\<forall>k \<in> set transcript_fields.
         case map_of [(''text'', PyStr '''')] k of None \<Rightarrow> True | Some v \<Rightarrow> \<not> truthy v"
    by (simp add: transcript_fields_def)
  have n: "first_truthy transcript_fields [(''text'', PyStr '''')] = None"
    by (simp add: transcript_fields_def)
  show ?thesis
    using empty_transcript_aborts [OF demo_run_blank s b e] demo_run_blank s b n by simp
qed

text \<open>
  The claim as the specification words it covers every 200 answer in which the
  recognised fields are absent. It fails when the body is not a JSON object: for the
  body \<open>[]\<close> no field is present, \<open>data.get\<close> raises at line 124, the run ends in that
  exception and "No transcription returned." is never shown.
\<close>

theorem empty_transcript_list_counterexample:
  "calls (snd (app (demo_env demo_secrets (always stt_list)) demo_input Map.empty))
     = [(stt_request (Some ''https://speech.example/v1'') (Some ''demo-key'') [82, 73, 70, 70],
         Response stt_list)]
   \<and> status_code stt_list = 200
   \<and> resp_json stt_list = Some (PyList [])
   \<and> fst (app (demo_env demo_secrets (always stt_list)) demo_input Map.empty)
       = Inl AttributeError
   \<and> errors (snd (app (demo_env demo_secrets (always stt_list)) demo_input Map.empty)) = []
   \<and> \<not> reported EmptyResult
         (snd (app (demo_env demo_secrets (always stt_list)) demo_input Map.empty))"
  by (simp add: run_defs demo_defs reported_def errors_def emit_def enter_def write_file_def
      record_call_def List.map_filter_def)
subsection \<open>C7: a stage gives the same output in two runs\<close>

text \<open>
  C7, as amended. Take two invocations of the same stage, in two environments and two
  worlds that may differ in everything else (what is already on the page, the calls made
  before, other files, the temporary directory). If the secrets are the same and the
  endpoints answer in the same way, then, for the same input, the two invocations behave
  alike: they return the same value, show the same messages and send the same request.
  For Transcribe the input is the audio file at the given path. For Synthesize the
  output path must moreover be writable in both runs or in neither; then the same path is
  returned and, on success, the output file holds the same bytes.
\<close>

theorem stage_two_runs:
  assumes cfg: "secrets e1 = secrets e2"
    and net: "post e1 (calls w1) = post e2 (calls w2)"
  shows "(files w1 p = files w2 p \<longrightarrow>
            observed w1 (call_stt_api e1 p w1) = observed w2 (call_stt_api e2 p w2))
         \<and> observed w1 (call_llm_api e1 t w1) = observed w2 (call_llm_api e2 t w2)
         \<and> (can_write e1 out = can_write e2 out \<longrightarrow>
              observed w1 (call_tts_api e1 t out w1) = observed w2 (call_tts_api e2 t out w2)
              \<and> (fst (call_tts_api e1 t out w1) = Inr (Some out) \<longrightarrow>
                   files (snd (call_tts_api e1 t out w1)) out
                     = files (snd (call_tts_api e2 t out w2)) out))"
proof (intro conjI impI)
  assume "files w1 p = files w2 p"
  then show "observed w1 (call_stt_api e1 p w1) = observed w2 (call_stt_api e2 p w2)"
    by (rule stt_two_runs [OF cfg net])
next
  show "observed w1 (call_llm_api e1 t w1) = observed w2 (call_llm_api e2 t w2)"
    by (rule llm_two_runs [OF cfg net])
next
  assume "can_write e1 out = can_write e2 out"
  then show "observed w1 (call_tts_api e1 t out w1) = observed w2 (call_tts_api e2 t out w2)"
    by (rule tts_two_runs(1) [OF cfg net])
next
  assume fsys: "can_write e1 out = can_write e2 out"
    and "fst (call_tts_api e1 t out w1) = Inr (Some out)"
  then show "files (snd (call_tts_api e1 t out w1)) out
      = files (snd (call_tts_api e2 t out w2)) out"
    using tts_two_runs(2) [OF cfg net fsys] by simp
qed

theorem stage_two_runs_witness:
  "secrets (demo_env demo_secrets (always stt_ok))
     = secrets ((demo_env demo_secrets (always stt_ok))\<lparr>tmpdir := ''/var/tmp''\<rparr>)
   \<and> post (demo_env demo_secrets (always stt_ok)) (calls fresh_world)
     = post ((demo_env demo_secrets (always stt_ok))\<lparr>tmpdir := ''/var/tmp''\<rparr>) (calls used_world)
   \<and> files fresh_world ''/tmp/clip.wav'' = files used_world ''/tmp/clip.wav''
   \<and> fst (call_stt_api (demo_env demo_secrets (always stt_ok)) ''/tmp/clip.wav'' fresh_world)
     = fst (call_stt_api ((demo_env demo_secrets (always stt_ok))\<lparr>tmpdir := ''/var/tmp''\<rparr>)
              ''/tmp/clip.wav'' used_world)
   \<and> fst (call_tts_api (demo_env demo_secrets (always stt_ok)) (PyStr ''ok'') ''/tmp/o.mp3''
            fresh_world)
     = fst (call_tts_api ((demo_env demo_secrets (always stt_ok))\<lparr>tmpdir := ''/var/tmp''\<rparr>)
              (PyStr ''ok'') ''/tmp/o.mp3'' used_world)"
proof -
  define e1 where "e1 = demo_env demo_secrets (always stt_ok)"
  define e2 where "e2 = (demo_env demo_secrets (always stt_ok))\<lparr>tmpdir := ''/var/tmp''\<rparr>"
  have c: "secrets e1 = secrets e2"
    by (simp add: e1_def e2_def demo_env_def)
  have n: "post e1 (calls fresh_world) = post e2 (calls used_world)"
    by (simp add: e1_def e2_def demo_env_def always_def fun_eq_iff)
  have f: "files fresh_world ''/tmp/clip.wav'' = files used_world ''/tmp/clip.wav''"
    by (simp add: fresh_world_def used_world_def)
  have w: "can_write e1 ''/tmp/o.mp3'' = can_write e2 ''/tmp/o.mp3''"
    by (simp add: e1_def e2_def demo_env_def)
  note two = stage_two_runs [OF c n, of "''/tmp/clip.wav''" "PyStr ''ok''" "''/tmp/o.mp3''"]
  have s: "fst (call_stt_api e1 ''/tmp/clip.wav'' fresh_world)
      = fst (call_stt_api e2 ''/tmp/clip.wav'' used_world)"
    using two f observed_fst by metis
  have t: "fst (call_tts_api e1 (PyStr ''ok'') ''/tmp/o.mp3'' fresh_world)
      = fst (call_tts_api e2 (PyStr ''ok'') ''/tmp/o.mp3'' used_world)"
    using two w observed_fst by metis
  show ?thesis
    using c n f s t unfolding e1_def e2_def by (intro conjI)
qed

text \<open>
  The claim as the specification words it (same input, same configuration, same endpoint
  answers) fails for Synthesize: with all three the same, the stage returns the output
  path where the file can be written and raises at line 167 where it cannot.
\<close>

lemma tts_demo_written:
  "fst (call_tts_api (demo_env demo_secrets (always tts_ok)) (PyStr ''ok'') ''/tmp/o.mp3''
          fresh_world) = Inr (Some ''/tmp/o.mp3'')"
  by (simp add: call_tts_api_def tts_send_def secrets_get_def open_write_def Let_def
      config_missing_def opt_truthy_def demo_env_def demo_secrets_def always_def tts_ok_def
      tts_endpoint_entry_def tts_key_entry_def stt_endpoint_entry_def stt_key_entry_def)

lemma tts_demo_unwritable:
  "fst (call_tts_api ((demo_env demo_secrets (always tts_ok))\<lparr>can_write := (\<lambda>path. False)\<rparr>)
          (PyStr ''ok'') ''/tmp/o.mp3'' fresh_world) = Inl OSError"
  by (simp add: call_tts_api_def tts_send_def secrets_get_def open_write_def Let_def
      config_missing_def opt_truthy_def demo_env_def demo_secrets_def always_def tts_ok_def
      tts_endpoint_entry_def tts_key_entry_def stt_endpoint_entry_def stt_key_entry_def)

theorem synthesize_file_system_counterexample:
  "secrets (demo_env demo_secrets (always tts_ok))
     = secrets ((demo_env demo_secrets (always tts_ok))\<lparr>can_write := (\<lambda>path. False)\<rparr>)
   \<and> post (demo_env demo_secrets (always tts_ok)) (calls fresh_world)
     = post ((demo_env demo_secrets (always tts_ok))\<lparr>can_write := (\<lambda>path. False)\<rparr>)
         (calls fresh_world)
   \<and> fst (call_tts_api (demo_env demo_secrets (always tts_ok)) (PyStr ''ok'') ''/tmp/o.mp3''
            fresh_world) = Inr (Some ''/tmp/o.mp3'')
   \<and> fst (call_tts_api ((demo_env demo_secrets (always tts_ok))\<lparr>can_write := (\<lambda>path. False)\<rparr>)
            (PyStr ''ok'') ''/tmp/o.mp3'' fresh_world) = Inl OSError"
  using tts_demo_written tts_demo_unwritable by (simp add: demo_env_def)
subsection \<open>C8: what the diagnostic checkbox reports\<close>

text \<open>
  C8, as amended. When the checkbox is ticked and the script ends without an exception,
  the last thing written to the page is a dictionary of three booleans; the one of each
  stage is true exactly when the secrets store holds a non-empty entry under the name
  \<open>STT_ENDPOINT\<close>, \<open>LLM_ENDPOINT\<close> or \<open>TTS_ENDPOINT\<close> respectively. No key entry is
  consulted.
\<close>

theorem show_configured_reads_endpoint_names:
  assumes chk: "show_checked inp" and fin: "fst (app env inp fs) = Inr u"
  shows "last (events (snd (app env inp fs))) =
     Write [(''STT_ENDPOINT'', \<exists>s. entry env ''STT_ENDPOINT'' = Some s \<and> s \<noteq> []),
            (''LLM_ENDPOINT'', \<exists>s. entry env ''LLM_ENDPOINT'' = Some s \<and> s \<noteq> []),
            (''TTS_ENDPOINT'', \<exists>s. entry env ''TTS_ENDPOINT'' = Some s \<and> s \<noteq> [])]"
proof -
  have t: "opt_truthy v \<longleftrightarrow> (\<exists>s. v = Some s \<and> s \<noteq> [])" for v
    by (cases v) (simp_all add: opt_truthy_def)
  define x where "x = (if process_pressed inp
            then process_button env (uploaded_file inp) (initial_world fs)
            else (Inr (), initial_world fs))"
  obtain res w' where x: "x = (res, w')" by (cases x)
  have a: "app env inp fs = (case x of (Inl e, w) \<Rightarrow> (Inl e, w)
      | (Inr u, w) \<Rightarrow> checkbox_block env (show_checked inp) w)"
    by (simp add: app_def x_def)
  show ?thesis
  proof (cases "secrets env")
    case None
    then show ?thesis
      using fin chk by (cases res) (simp_all add: a x checkbox_block_def show_configured_store)
  next
    case (Some store)
    then show ?thesis
      using fin chk by (cases res) (simp_all add: a x checkbox_block_def show_configured_store t)
  qed
qed

theorem show_configured_reads_endpoint_names_witness:
  "show_checked (demo_input\<lparr>process_pressed := False, show_checked := True\<rparr>)
   \<and> fst (app (demo_env [''STT_ENDPOINT'' \<mapsto> ''https://stt.example/''] all_ok)
            (demo_input\<lparr>process_pressed := False, show_checked := True\<rparr>) Map.empty) = Inr ()
   \<and> last (events (snd (app (demo_env [''STT_ENDPOINT'' \<mapsto> ''https://stt.example/''] all_ok)
            (demo_input\<lparr>process_pressed := False, show_checked := True\<rparr>) Map.empty)))
       = Write [(''STT_ENDPOINT'', True), (''LLM_ENDPOINT'', False), (''TTS_ENDPOINT'', False)]"
proof -
  have c: "show_checked (demo_input\<lparr>process_pressed := False, show_checked := True\<rparr>)"
    by simp
  have r: "fst (app (demo_env [''STT_ENDPOINT'' \<mapsto> ''https://stt.example/''] all_ok)
            (demo_input\<lparr>process_pressed := False, show_checked := True\<rparr>) Map.empty) = Inr ()"
    by (simp add: app_def checkbox_block_def show_configured_def secrets_get_def demo_env_def)
  show ?thesis
    using show_configured_reads_endpoint_names [OF c r] c r
    by (simp add: demo_env_def entry_def)
qed

text \<open>
  The claim as the specification words it, "true exactly when the stage's own
  missing-configuration check would pass", fails on a store that holds only
  \<open>STT_ENDPOINT\<close>: the checkbox reports the stage as configured, and the check of
  Transcribe, which reads two other entries, fails.
\<close>

theorem diagnostic_counterexample:
  "diagnostic_of (demo_env [''STT_ENDPOINT'' \<mapsto> ''https://stt.example/''] all_ok) Transcribe
     \<noteq> Some (\<not> stage_config_missing
                 (demo_env [''STT_ENDPOINT'' \<mapsto> ''https://stt.example/''] all_ok) Transcribe)"
  by (simp add: diagnostic_of_def show_configured_def secrets_get_def entry_def demo_env_def
      config_missing_def opt_truthy_def stt_endpoint_entry_def stt_key_entry_def)

subsection \<open>C9: without an upload nothing runs\<close>

text \<open>
  C9. When the button is pressed and no file is uploaded, the script enters no stage and
  makes no HTTP call; the body of the button shows the warning "No audio available ..."
  and ends without an exception, in state \<open>Idle\<close>, leaving the files as they were, with no
  audio played and no error shown. After it only the checkbox block runs. Unless the
  checkbox is ticked while there is no secrets store, the whole script ends without an
  exception and in state \<open>Idle\<close>, having added the dictionary of the checkbox when that
  is ticked; in that one case the lookup of the checkbox raises. Whatever the in-page
  recorder posted has no effect on a run: the script gives the same result for every
  posted value.
\<close>

theorem no_upload_no_stage:
  "(process_pressed inp \<and> uploaded_file inp = None \<longrightarrow>
      calls (snd (app env inp fs)) = []
      \<and> entered (snd (app env inp fs)) = []
      \<and> files (snd (app env inp fs)) = fs
      \<and> played (snd (app env inp fs)) = []
      \<and> errors (snd (app env inp fs)) = []
      \<and> fst (process_button env (uploaded_file inp) (initial_world fs)) = Inr ()
      \<and> run_state (process_button env (uploaded_file inp) (initial_world fs)) = Idle
      \<and> events (snd (app env inp fs)) =
          events (initial_world fs)
          @ [Warning (PyStr ''No audio available. Use the recorder (top) or upload a file.'')]
          @ (if show_checked inp
             then (case show_configured env of Inl e \<Rightarrow> [] | Inr d \<Rightarrow> [Write d])
             else [])
      \<and> fst (app env inp fs) =
          (if show_checked inp
           then (case show_configured env of Inl e \<Rightarrow> Inl e | Inr d \<Rightarrow> Inr ())
           else Inr ())
      \<and> run_state (app env inp fs) =
          (if show_checked inp \<and> secrets env = None then Aborted else Idle))
   \<and> app env (inp\<lparr>recorder_posted := posted\<rparr>) fs = app env inp fs"
proof (intro conjI impI)
  assume h: "process_pressed inp \<and> uploaded_file inp = None"
  then have run: "process_button env (uploaded_file inp) (initial_world fs) =
      (Inr (), emit (Warning (PyStr
         ''No audio available. Use the recorder (top) or upload a file.'')) (initial_world fs))"
    by (simp add: process_button_None)
  note app = app_pressed [OF conjunct1 [OF h] run]
  show "calls (snd (app env inp fs)) = []" by (simp add: app)
  show "entered (snd (app env inp fs)) = []" by (simp add: app)
  show "files (snd (app env inp fs)) = fs" by (simp add: app)
  show "played (snd (app env inp fs)) = []" by (simp add: app)
  show "errors (snd (app env inp fs)) = []" by (simp add: app)
  show "fst (process_button env (uploaded_file inp) (initial_world fs)) = Inr ()"
    by (simp add: run)
  show "run_state (process_button env (uploaded_file inp) (initial_world fs)) = Idle"
    by (simp add: run run_state_def)
  show "events (snd (app env inp fs)) =
          events (initial_world fs)
          @ [Warning (PyStr ''No audio available. Use the recorder (top) or upload a file.'')]
          @ (if show_checked inp
             then (case show_configured env of Inl e \<Rightarrow> [] | Inr d \<Rightarrow> [Write d])
             else [])"
    using h by (simp add: app_def process_button_None checkbox_block_def split: sum.splits)
  show "fst (app env inp fs) =
          (if show_checked inp
           then (case show_configured env of Inl e \<Rightarrow> Inl e | Inr d \<Rightarrow> Inr ())
           else Inr ())"
    using h by (simp add: app_def process_button_None checkbox_block_def split: sum.splits)
  then show "run_state (app env inp fs) =
          (if show_checked inp \<and> secrets env = None then Aborted else Idle)"
    by (cases "secrets env") (simp_all add: run_state_def app show_configured_store)
next
  show "app env (inp\<lparr>recorder_posted := posted\<rparr>) fs = app env inp fs"
    by (rule app_ignores_recorder)
qed

theorem no_upload_no_stage_witness:
  "process_pressed (demo_input\<lparr>uploaded_file := None\<rparr>)
   \<and> uploaded_file (demo_input\<lparr>uploaded_file := None\<rparr>) = None
   \<and> calls (snd (app (demo_env demo_secrets all_ok) (demo_input\<lparr>uploaded_file := None\<rparr>)
                  Map.empty)) = []
   \<and> entered (snd (app (demo_env demo_secrets all_ok) (demo_input\<lparr>uploaded_file := None\<rparr>)
                  Map.empty)) = []
   \<and> fst (app (demo_env demo_secrets all_ok) (demo_input\<lparr>uploaded_file := None\<rparr>)
             Map.empty) = Inr ()
   \<and> app (demo_env demo_secrets all_ok)
          (demo_input\<lparr>uploaded_file := None, recorder_posted := Some ''UklGRg==''\<rparr>) Map.empty
     = app (demo_env demo_secrets all_ok) (demo_input\<lparr>uploaded_file := None\<rparr>) Map.empty"
proof -
  have p: "process_pressed (demo_input\<lparr>uploaded_file := None\<rparr>)"
    and u: "uploaded_file (demo_input\<lparr>uploaded_file := None\<rparr>) = None"
    and k: "\<not> show_checked (demo_input\<lparr>uploaded_file := None\<rparr>)"
    by (simp_all add: demo_input_def)
  show ?thesis
    using no_upload_no_stage [of "demo_input\<lparr>uploaded_file := None\<rparr>"
        "demo_env demo_secrets all_ok" Map.empty "Some ''UklGRg==''"] p u k
    by simp
qed

subsection \<open>C10: an empty \<open>choices\<close> list counts as absent\<close>

text \<open>
  C10. When the LLM response is a JSON object whose \<open>choices\<close> is an empty list, the
  reply is taken from the flat fields, as it is when \<open>choices\<close> is absent: it is
  \<open>response\<close> if that is not empty, else \<open>text\<close> if that is not empty, else the empty
  string, which is also the reply of the same object without the \<open>choices\<close> key. The
  other branch is taken only when \<open>choices\<close> is present and not empty: whenever the
  reply is not the one of the flat fields, \<open>choices\<close> is there and its length is not
  zero.
\<close>

theorem empty_choices_as_absent:
  "(map_of kv ''choices'' = Some (PyList []) \<or> map_of kv ''choices'' = None \<longrightarrow>
      llm_reply (PyDict kv) = Inr (or_empty (first_truthy [''response'', ''text''] kv))
      \<and> llm_reply (PyDict kv) = llm_reply (PyDict (filter (\<lambda>p. fst p \<noteq> ''choices'') kv)))
   \<and> (llm_reply (PyDict kv) \<noteq> Inr (or_empty (first_truthy [''response'', ''text''] kv)) \<longrightarrow>
        (\<exists>cs. map_of kv ''choices'' = Some cs \<and> py_len cs \<noteq> Inr 0))"
proof -
  have m: "map_of (filter (\<lambda>p. fst p \<noteq> ''choices'') kv) k
             = (if k = ''choices'' then None else map_of kv k)" for k
    by (induction kv) auto
  have flat: "map_of xs ''choices'' = None \<Longrightarrow>
      llm_reply (PyDict xs) = Inr (or_empty (first_truthy [''response'', ''text''] xs))" for xs
    by (simp add: llm_reply_def llm_structured_def llm_from_flat_def py_or_def or_empty_def
        split: option.splits)
  have len0: "map_of kv ''choices'' = Some cs \<Longrightarrow> py_len cs = Inr 0 \<Longrightarrow>
      llm_reply (PyDict kv) = Inr (or_empty (first_truthy [''response'', ''text''] kv))" for cs
    by (simp add: llm_reply_def llm_structured_def llm_from_flat_def py_or_def or_empty_def
        split: option.splits)
  have same: "first_truthy [''response'', ''text''] (filter (\<lambda>p. fst p \<noteq> ''choices'') kv)
      = first_truthy [''response'', ''text''] kv"
    by (simp add: m split: option.splits)
  have dropped: "llm_reply (PyDict (filter (\<lambda>p. fst p \<noteq> ''choices'') kv))
      = Inr (or_empty (first_truthy [''response'', ''text''] kv))"
  proof -
    have "map_of (filter (\<lambda>p. fst p \<noteq> ''choices'') kv) ''choices'' = None"
      by (simp add: m)
    from flat [OF this] show ?thesis
      by (simp only: same)
  qed
  show ?thesis
  proof (intro conjI impI)
    assume a: "map_of kv ''choices'' = Some (PyList []) \<or> map_of kv ''choices'' = None"
    then show "llm_reply (PyDict kv) = Inr (or_empty (first_truthy [''response'', ''text''] kv))"
      using flat [of kv] len0 [of "PyList []"] by auto
    then show "llm_reply (PyDict kv)
        = llm_reply (PyDict (filter (\<lambda>p. fst p \<noteq> ''choices'') kv))"
      by (simp add: dropped)
  next
    assume d: "llm_reply (PyDict kv) \<noteq> Inr (or_empty (first_truthy [''response'', ''text''] kv))"
    show "\<exists>cs. map_of kv ''choices'' = Some cs \<and> py_len cs \<noteq> Inr 0"
    proof (cases "map_of kv ''choices''")
      case None
      then show ?thesis using d flat [of kv] by simp
    next
      case (Some cs)
      then show ?thesis using d len0 [of cs] by auto
    qed
  qed
qed

theorem empty_choices_as_absent_witness:
  "map_of [(''choices'', PyList []), (''response'', PyStr ''ok'')] ''choices'' = Some (PyList [])
   \<and> llm_reply (PyDict [(''choices'', PyList []), (''response'', PyStr ''ok'')])
     = Inr (PyStr ''ok'')
   \<and> llm_reply (PyDict [(''choices'', PyList []), (''response'', PyStr ''ok'')])
     = llm_reply (PyDict [(''response'', PyStr ''ok'')])"
  using empty_choices_as_absent [of "[(''choices'', PyList []), (''response'', PyStr ''ok'')]"]
  by (auto simp add: or_empty_def)

end
